theory Spec2Isabelle
  imports Main "HOL-Library.Word"
begin

section \<open>JavaScript strings\<close>

text \<open>
  A JavaScript string is a sequence of UTF-16 code units; \<open>length\<close> counts code units,
  as \<^verbatim>\<open>password.length\<close> does. \<open>js\<close> writes an ASCII literal of the script.
\<close>

type_synonym jstring = "16 word list"

definition js :: "string \<Rightarrow> jstring" where
  "js s = map of_char s"

text \<open>
  \<^verbatim>\<open>String.prototype.trim\<close> strips the ECMAScript WhiteSpace and LineTerminator code
  points from both ends; all of them lie in the basic plane.
\<close>

definition isWhiteSpace :: "16 word \<Rightarrow> bool" where
  "isWhiteSpace c \<longleftrightarrow>
     c = 0x0009 \<or> c = 0x000A \<or> c = 0x000B \<or> c = 0x000C \<or> c = 0x000D \<or> c = 0x0020 \<or>
     c = 0x00A0 \<or> c = 0x1680 \<or> (0x2000 \<le> c \<and> c \<le> 0x200A) \<or> c = 0x2028 \<or>
     c = 0x2029 \<or> c = 0x202F \<or> c = 0x205F \<or> c = 0x3000 \<or> c = 0xFEFF"

definition trim :: "jstring \<Rightarrow> jstring" where
  "trim s = rev (dropWhile isWhiteSpace (rev (dropWhile isWhiteSpace s)))"

text \<open>\<^verbatim>\<open>s.includes(sub)\<close>: \<open>sub\<close> occurs in \<open>s\<close> as a contiguous run.\<close>

fun isPrefix :: "jstring \<Rightarrow> jstring \<Rightarrow> bool" where
  "isPrefix [] s = True"
| "isPrefix (c # cs) [] = False"
| "isPrefix (c # cs) (d # ds) = (c = d \<and> isPrefix cs ds)"

fun includes_js :: "jstring \<Rightarrow> jstring \<Rightarrow> bool" where
  "includes_js [] sub = isPrefix sub []"
| "includes_js (c # cs) sub = (isPrefix sub (c # cs) \<or> includes_js cs sub)"

text \<open>
  \<^verbatim>\<open>s.split("/")\<close> always returns at least one segment, so the \<^verbatim>\<open>.pop()\<close> that follows it
  in the script returns the text after the last separator.
\<close>

fun split :: "16 word \<Rightarrow> jstring \<Rightarrow> jstring list" where
  "split sep [] = [[]]"
| "split sep (c # cs) =
     (if c = sep then [] # split sep cs
      else (let r = split sep cs in (c # hd r) # tl r))"

definition pop :: "jstring list \<Rightarrow> jstring" where
  "pop segs = last segs"

subsection \<open>\<^verbatim>\<open>JSON.stringify\<close> of a user record\<close>

record user =
  username :: jstring

definition hexDigit :: "nat \<Rightarrow> 16 word" where
  "hexDigit n = (if n < 10 then 0x30 + of_nat n else 0x61 + of_nat (n - 10))"

definition unicodeEscape :: "16 word \<Rightarrow> jstring" where
  "unicodeEscape c =
     [0x5C, 0x75, hexDigit (unat c div 4096), hexDigit (unat c div 256 mod 16),
      hexDigit (unat c div 16 mod 16), hexDigit (unat c mod 16)]"

definition isLeadSurrogate :: "16 word \<Rightarrow> bool" where
  "isLeadSurrogate c \<longleftrightarrow> 0xD800 \<le> c \<and> c \<le> 0xDBFF"

definition isTrailSurrogate :: "16 word \<Rightarrow> bool" where
  "isTrailSurrogate c \<longleftrightarrow> 0xDC00 \<le> c \<and> c \<le> 0xDFFF"

text \<open>One code unit that is not the first half of a surrogate pair, as QuoteJSONString writes it.\<close>

definition escapeUnit :: "16 word \<Rightarrow> jstring" where
  "escapeUnit c =
     (if c = 0x08 then [0x5C, 0x62]
      else if c = 0x09 then [0x5C, 0x74]
      else if c = 0x0A then [0x5C, 0x6E]
      else if c = 0x0C then [0x5C, 0x66]
      else if c = 0x0D then [0x5C, 0x72]
      else if c = 0x22 then [0x5C, 0x22]
      else if c = 0x5C then [0x5C, 0x5C]
      else if c < 0x20 \<or> isLeadSurrogate c \<or> isTrailSurrogate c then unicodeEscape c
      else [c])"

fun quoteJSONChars :: "jstring \<Rightarrow> jstring" where
  "quoteJSONChars [] = []"
| "quoteJSONChars [c] = escapeUnit c"
| "quoteJSONChars (c # d # cs) =
     (if isLeadSurrogate c \<and> isTrailSurrogate d then c # d # quoteJSONChars cs
      else escapeUnit c @ quoteJSONChars (d # cs))"

definition JSON_stringify :: "user \<Rightarrow> jstring" where
  "JSON_stringify u =
     [0x7B, 0x22] @ js ''username'' @ [0x22, 0x3A, 0x22] @ quoteJSONChars (username u) @ [0x22, 0x7D]"

section \<open>The browser state the script reads and writes\<close>

text \<open>
  The page markup is not part of the script, so the elements the script looks up are fields of
  the state: the controls of the page's form by id (with the default value that
  \<^verbatim>\<open>form.reset()\<close> restores), the elements of class \<^verbatim>\<open>error\<close> or \<^verbatim>\<open>success\<close> in document order
  (each with one class name, and a flag telling whether the checkmark element is its child),
  the element with id \<^verbatim>\<open>successCheckmark\<close> (its \<^verbatim>\<open>style.display\<close>, while it is in the
  document; it carries neither of the two classes itself), and the \<^verbatim>\<open>.pwd-toggle\<close> buttons. A storage area that is \<open>None\<close> is unavailable:
  every access to it throws. An available storage area accepts every write (no quota).
  \<open>searchParams\<close> is \<^verbatim>\<open>new URLSearchParams(location.search)\<close>, the decoded name/value pairs
  in order. \<open>hrefs\<close> collects the assignments to \<^verbatim>\<open>location.href\<close>, and \<open>timers\<close> the
  navigations scheduled by \<^verbatim>\<open>setTimeout\<close> with their delay in milliseconds.
\<close>

datatype js_error = SecurityError | TypeError

record input_el =
  el_value :: jstring
  el_defaultValue :: jstring
  el_type :: jstring

record message_el =
  msg_text :: jstring
  msg_class :: jstring
  msg_checkmark :: bool

record button_el =
  btn_dataFor :: "jstring option"
  btn_textContent :: jstring

record browser =
  localStorage :: "(jstring \<rightharpoonup> jstring) option"
  sessionStorage :: "(jstring \<rightharpoonup> jstring) option"
  pathname :: jstring
  searchParams :: "(jstring \<times> jstring) list"
  hrefs :: "jstring list"
  timers :: "(nat \<times> jstring) list"
  inputs :: "jstring \<rightharpoonup> input_el"
  messages :: "message_el list"
  checkmark :: "jstring option"
  buttons :: "button_el list"

text \<open>A piece of script either returns a value or throws, and leaves a state behind.\<close>

type_synonym 'a prog = "browser \<Rightarrow> (js_error + 'a) \<times> browser"

definition return_js :: "'a \<Rightarrow> 'a prog" where
  "return_js x b = (Inr x, b)"

definition throw :: "js_error \<Rightarrow> 'a prog" where
  "throw e b = (Inl e, b)"

definition bind_js :: "'a prog \<Rightarrow> ('a \<Rightarrow> 'b prog) \<Rightarrow> 'b prog" where
  "bind_js m f b = (case m b of (Inl e, b') \<Rightarrow> (Inl e, b') | (Inr x, b') \<Rightarrow> f x b')"

subsection \<open>Storage\<close>

definition localStorage_getItem :: "jstring \<Rightarrow> jstring option prog" where
  "localStorage_getItem k b =
     (case localStorage b of None \<Rightarrow> throw SecurityError b | Some m \<Rightarrow> return_js (m k) b)"

definition localStorage_setItem :: "jstring \<Rightarrow> jstring \<Rightarrow> unit prog" where
  "localStorage_setItem k v b =
     (case localStorage b of None \<Rightarrow> throw SecurityError b
      | Some m \<Rightarrow> return_js () (b\<lparr>localStorage := Some (m(k \<mapsto> v))\<rparr>))"

definition localStorage_removeItem :: "jstring \<Rightarrow> unit prog" where
  "localStorage_removeItem k b =
     (case localStorage b of None \<Rightarrow> throw SecurityError b
      | Some m \<Rightarrow> return_js () (b\<lparr>localStorage := Some (m(k := None))\<rparr>))"

definition sessionStorage_getItem :: "jstring \<Rightarrow> jstring option prog" where
  "sessionStorage_getItem k b =
     (case sessionStorage b of None \<Rightarrow> throw SecurityError b | Some m \<Rightarrow> return_js (m k) b)"

definition sessionStorage_setItem :: "jstring \<Rightarrow> jstring \<Rightarrow> unit prog" where
  "sessionStorage_setItem k v b =
     (case sessionStorage b of None \<Rightarrow> throw SecurityError b
      | Some m \<Rightarrow> return_js () (b\<lparr>sessionStorage := Some (m(k \<mapsto> v))\<rparr>))"

definition sessionStorage_removeItem :: "jstring \<Rightarrow> unit prog" where
  "sessionStorage_removeItem k b =
     (case sessionStorage b of None \<Rightarrow> throw SecurityError b
      | Some m \<Rightarrow> return_js () (b\<lparr>sessionStorage := Some (m(k := None))\<rparr>))"

subsection \<open>Location\<close>

definition get_pathname :: "jstring prog" where
  "get_pathname b = return_js (pathname b) b"

definition set_href :: "jstring \<Rightarrow> unit prog" where
  "set_href url b = return_js () (b\<lparr>hrefs := hrefs b @ [url]\<rparr>)"

text \<open>\<^verbatim>\<open>URLSearchParams.get\<close>: the value of the first pair with that name, or null.\<close>

definition searchParams_get :: "jstring \<Rightarrow> jstring option prog" where
  "searchParams_get name b = return_js (map_of (searchParams b) name) b"

section \<open>The \<^verbatim>\<open>auth\<close> object\<close>

definition storageKey :: jstring where
  "storageKey = js ''ll_auth_user''"

definition redirectKey :: jstring where
  "redirectKey = js ''ll_redirected_questview''"

definition auth_login :: "user \<Rightarrow> unit prog" where
  "auth_login u = localStorage_setItem storageKey (JSON_stringify u)"

definition auth_logout :: "unit prog" where
  "auth_logout =
     bind_js (localStorage_removeItem storageKey) (\<lambda>_.
     sessionStorage_removeItem redirectKey)"

definition auth_isLoggedIn :: "bool prog" where
  "auth_isLoggedIn =
     bind_js (localStorage_getItem storageKey) (\<lambda>v.
     return_js (v \<noteq> None))"

definition auth_redirectToQuestOnce :: "unit prog" where
  "auth_redirectToQuestOnce =
     bind_js auth_isLoggedIn (\<lambda>loggedIn.
     if \<not> loggedIn then return_js ()
     else
       bind_js (sessionStorage_getItem redirectKey) (\<lambda>flag.
       bind_js get_pathname (\<lambda>path.
       let alreadyRedirected = (flag = Some (js ''1''));
           currentPage = pop (split 0x2F path)
       in if alreadyRedirected \<or> currentPage = js ''questBoard.html''
               \<or> currentPage = js ''admin.html''
          then return_js ()
          else
            bind_js (sessionStorage_setItem redirectKey (js ''1'')) (\<lambda>_.
            set_href (js ''questBoard.html'')))))"

section \<open>Form helpers and the document\<close>

text \<open>
  \<^verbatim>\<open>$("#id").value\<close>: \<^verbatim>\<open>querySelector\<close> returns null for an id the page does not have, and
  reading \<^verbatim>\<open>.value\<close> of null throws a TypeError.
\<close>

definition input_value :: "jstring \<Rightarrow> jstring prog" where
  "input_value ident b =
     (case inputs b ident of None \<Rightarrow> throw TypeError b | Some el \<Rightarrow> return_js (el_value el) b)"

text \<open>The paragraph that \<^verbatim>\<open>showMessage\<close> creates, with no child but its text.\<close>

definition alert :: "jstring \<Rightarrow> jstring \<Rightarrow> message_el" where
  "alert message type = \<lparr>msg_text = message, msg_class = type, msg_checkmark = False\<rparr>"

text \<open>\<^verbatim>\<open>showMessage\<close> appends a new paragraph with the text and the class to the form.\<close>

definition showMessage :: "jstring \<Rightarrow> jstring \<Rightarrow> unit prog" where
  "showMessage message type b =
     return_js () (b\<lparr>messages := messages b @ [alert message type]\<rparr>)"

text \<open>
  \<^verbatim>\<open>clearMessages\<close> removes every element of class \<^verbatim>\<open>error\<close> or \<^verbatim>\<open>success\<close> from the
  document (the helper \<^verbatim>\<open>$$\<close> takes the selector only), each with its children: a checkmark
  that was moved into a message leaves the document with it.
\<close>

definition clearMessages :: "unit prog" where
  "clearMessages b =
     return_js () (b\<lparr>messages := [],
       checkmark := (if list_ex msg_checkmark (messages b) then None else checkmark b)\<rparr>)"

text \<open>\<^verbatim>\<open>form.reset()\<close> gives every control of the form its default value back.\<close>

definition form_reset :: "unit prog" where
  "form_reset b =
     return_js ()
       (b\<lparr>inputs := (\<lambda>i. map_option (\<lambda>el. el\<lparr>el_value := el_defaultValue el\<rparr>) (inputs b i))\<rparr>)"

text \<open>\<^verbatim>\<open>setTimeout(() => { window.location.href = url }, delay)\<close>.\<close>

definition setTimeout_href :: "jstring \<Rightarrow> nat \<Rightarrow> unit prog" where
  "setTimeout_href url delay b = return_js () (b\<lparr>timers := timers b @ [(delay, url)]\<rparr>)"

text \<open>\<^verbatim>\<open>document.getElementById('successCheckmark')\<close> and \<^verbatim>\<open>checkmark.style.display = d\<close>.\<close>

definition getElementById_successCheckmark :: "jstring option prog" where
  "getElementById_successCheckmark b = return_js (checkmark b) b"

definition set_checkmark_display :: "jstring \<Rightarrow> unit prog" where
  "set_checkmark_display d b = return_js () (b\<lparr>checkmark := Some d\<rparr>)"

text \<open>
  \<^verbatim>\<open>form.querySelector('.success')\<close> is the first element of class \<^verbatim>\<open>success\<close>;
  \<^verbatim>\<open>messageElement.insertBefore(checkmark, messageElement.firstChild)\<close> moves the checkmark
  into it, away from where it was. With no such element nothing moves.
\<close>

fun moveCheckmark :: "message_el list \<Rightarrow> message_el list" where
  "moveCheckmark [] = []"
| "moveCheckmark (m # ms) =
     (if msg_class m = js ''success''
      then m\<lparr>msg_checkmark := True\<rparr> # map (\<lambda>x. x\<lparr>msg_checkmark := False\<rparr>) ms
      else m\<lparr>msg_checkmark := False\<rparr> # moveCheckmark ms)"

definition prependCheckmark :: "unit prog" where
  "prependCheckmark b =
     (if list_ex (\<lambda>m. msg_class m = js ''success'') (messages b)
      then return_js () (b\<lparr>messages := moveCheckmark (messages b)\<rparr>)
      else return_js () b)"

section \<open>The form handlers\<close>

subsection \<open>Login form: the submit listener of \<^verbatim>\<open>setupLoginForm\<close>\<close>

definition adminPath :: "jstring \<Rightarrow> jstring" where
  "adminPath path =
     (if includes_js path (js ''/pages/auth/'') then js ''../../admin/admin.html''
      else js ''/admin/admin.html'')"

definition questBoardPath :: "jstring \<Rightarrow> jstring" where
  "questBoardPath path =
     (if includes_js path (js ''/pages/auth/'') then js ''../quests/questBoard.html''
      else js ''/pages/quests/questBoard.html'')"

text \<open>\<^verbatim>\<open>returnUrl || questBoardPath\<close>: null and the empty string are both falsy.\<close>

definition returnUrl_or :: "jstring option \<Rightarrow> jstring \<Rightarrow> jstring" where
  "returnUrl_or returnUrl dflt =
     (case returnUrl of None \<Rightarrow> dflt | Some r \<Rightarrow> if r = [] then dflt else r)"

definition login_submit :: "unit prog" where
  "login_submit =
     bind_js clearMessages (\<lambda>_.
     bind_js (input_value (js ''username'')) (\<lambda>raw.
     bind_js (input_value (js ''password'')) (\<lambda>password.
     let username = trim raw in
     if username = [] \<or> password = []
     then showMessage (js ''Please enter both username and password.'') (js ''error'')
     else if username = js ''admin'' \<and> password = js ''admin123''
     then
       bind_js (showMessage (js ''Admin login successful! Redirecting...'') (js ''success'')) (\<lambda>_.
       bind_js (auth_login \<lparr>username = username\<rparr>) (\<lambda>_.
       bind_js get_pathname (\<lambda>path.
       set_href (adminPath path))))
     else
       bind_js (auth_login \<lparr>username = username\<rparr>) (\<lambda>_.
       bind_js (searchParams_get (js ''return'')) (\<lambda>returnUrl.
       bind_js get_pathname (\<lambda>path.
       set_href (returnUrl_or returnUrl (questBoardPath path)))))
     )))"

subsection \<open>Signup form: the submit listener of \<^verbatim>\<open>setupSignupForm\<close>\<close>

definition signup_submit :: "unit prog" where
  "signup_submit =
     bind_js clearMessages (\<lambda>_.
     bind_js (input_value (js ''fullname'')) (\<lambda>fullname.
     bind_js (input_value (js ''email'')) (\<lambda>rawEmail.
     bind_js (input_value (js ''password'')) (\<lambda>password.
     bind_js (input_value (js ''confirm-password'')) (\<lambda>confirmPassword.
     let name = trim fullname; email = trim rawEmail in
     if name = [] \<or> email = [] \<or> password = []
     then showMessage (js ''All fields are required.'') (js ''error'')
     else if length password < 6
     then showMessage (js ''Password must be at least 6 characters.'') (js ''error'')
     else if password \<noteq> confirmPassword
     then showMessage (js ''Passwords do not match.'') (js ''error'')
     else
       bind_js (showMessage (js ''Account created! Redirecting to login...'') (js ''success'')) (\<lambda>_.
       setTimeout_href (js ''login.html'') 1000))))))"

subsection \<open>Quest form: the submit listener of \<^verbatim>\<open>setupQuestForm\<close>\<close>

definition quest_submit :: "unit prog" where
  "quest_submit =
     bind_js clearMessages (\<lambda>_.
     bind_js (input_value (js ''questTitle'')) (\<lambda>rawTitle.
     bind_js (input_value (js ''questBudget'')) (\<lambda>rawBudget.
     bind_js (input_value (js ''questDesc'')) (\<lambda>rawDesc.
     let title = trim rawTitle; budget = trim rawBudget; description = trim rawDesc in
     if title = [] \<or> budget = [] \<or> description = []
     then showMessage (js ''Please complete all fields.'') (js ''error'')
     else
       bind_js form_reset (\<lambda>_.
       bind_js getElementById_successCheckmark (\<lambda>found.
       case found of
         Some _ \<Rightarrow>
           bind_js (set_checkmark_display (js ''inline-block'')) (\<lambda>_.
           bind_js (showMessage (js ''Quest submitted successfully!'') (js ''success'')) (\<lambda>_.
           prependCheckmark))
       | None \<Rightarrow> showMessage (js ''Quest submitted successfully!'') (js ''success'')))))))"

subsection \<open>Password toggles: the click listener of \<^verbatim>\<open>setupPasswordToggles\<close>\<close>

text \<open>
  \<^verbatim>\<open>btn.getAttribute("data-for")\<close> is null without the attribute, and \<^verbatim>\<open>getElementById\<close>
  then looks for the id \<^verbatim>\<open>null\<close>. A button gets its listener only when its target exists; no
  operation here adds or removes a control or changes a \<^verbatim>\<open>data-for\<close>, so the target found
  at a click is the one found at setup.
\<close>

definition inputId :: "button_el \<Rightarrow> jstring" where
  "inputId btn = (case btn_dataFor btn of None \<Rightarrow> js ''null'' | Some i \<Rightarrow> i)"

definition pwdToggle_click :: "nat \<Rightarrow> unit prog" where
  "pwdToggle_click n b =
     (if n < length (buttons b) then
        (let btn = buttons b ! n in
         case inputs b (inputId btn) of
           None \<Rightarrow> return_js () b
         | Some passwordInput \<Rightarrow>
             (let isPassword = (el_type passwordInput = js ''password'') in
              return_js ()
                (b\<lparr>inputs := (inputs b)(inputId btn \<mapsto>
                       passwordInput\<lparr>el_type := if isPassword then js ''text'' else js ''password''\<rparr>),
                   buttons := (buttons b)[n := btn\<lparr>btn_textContent :=
                       if isPassword then js ''Hide'' else js ''Show''\<rparr>]\<rparr>)))
      else return_js () b)"

subsection \<open>Page loads\<close>

text \<open>
  Every page load runs \<^verbatim>\<open>setupGlobalUI\<close>, whose only access to storage and only navigation is
  its call of \<^verbatim>\<open>auth.redirectToQuestOnce()\<close>. \<open>visit_pages\<close> loads the given paths one after
  the other in one tab, with no login or logout in between.
\<close>

fun visit_pages :: "jstring list \<Rightarrow> unit prog" where
  "visit_pages [] b = return_js () b"
| "visit_pages (p # ps) b =
     bind_js auth_redirectToQuestOnce (\<lambda>_. visit_pages ps) (b\<lparr>pathname := p\<rparr>)"

section \<open>Pages used as concrete inputs\<close>

definition textField :: "jstring \<Rightarrow> input_el" where
  "textField v = \<lparr>el_value = v, el_defaultValue = [], el_type = js ''text''\<rparr>"

definition passwordField :: "jstring \<Rightarrow> input_el" where
  "passwordField v = \<lparr>el_value = v, el_defaultValue = [], el_type = js ''password''\<rparr>"

definition blankPage :: browser where
  "blankPage =
     \<lparr>localStorage = Some Map.empty, sessionStorage = Some Map.empty,
      pathname = js ''/index.html'', searchParams = [], hrefs = [], timers = [],
      inputs = Map.empty, messages = [], checkmark = None, buttons = []\<rparr>"

text \<open>A page loaded by a logged-in user for whom the automatic redirect has fired.\<close>

definition loggedInPage :: "jstring \<Rightarrow> browser" where
  "loggedInPage u =
     blankPage\<lparr>localStorage := Some [storageKey \<mapsto> JSON_stringify \<lparr>username = u\<rparr>],
       sessionStorage := Some [redirectKey \<mapsto> js ''1'']\<rparr>"

definition signupPage :: "jstring \<Rightarrow> jstring \<Rightarrow> jstring \<Rightarrow> jstring \<Rightarrow> browser" where
  "signupPage n e p c =
     blankPage\<lparr>pathname := js ''/pages/auth/signup.html'',
       inputs := [js ''fullname'' \<mapsto> textField n, js ''email'' \<mapsto> textField e,
                  js ''password'' \<mapsto> passwordField p, js ''confirm-password'' \<mapsto> passwordField c]\<rparr>"

text \<open>A page with two masked fields, each with its own toggle labelled Show.\<close>

definition togglePage :: browser where
  "togglePage =
     blankPage\<lparr>inputs := [js ''password'' \<mapsto> passwordField (js ''secret''),
                          js ''confirm-password'' \<mapsto> passwordField (js ''secret'')],
       buttons := [\<lparr>btn_dataFor = Some (js ''password''), btn_textContent = js ''Show''\<rparr>,
                   \<lparr>btn_dataFor = Some (js ''confirm-password''), btn_textContent = js ''Show''\<rparr>]\<rparr>"

text \<open>
  The quest form with its three fields, no default values in the markup, and the checkmark
  element hidden (or absent, for \<open>None\<close>). \<open>typeInto\<close> is the user typing into a field.
\<close>

definition questPage :: "jstring \<Rightarrow> jstring \<Rightarrow> jstring \<Rightarrow> jstring option \<Rightarrow> browser" where
  "questPage t bu d ck =
     blankPage\<lparr>pathname := js ''/pages/questgiver/postquest.html'',
       inputs := [js ''questTitle'' \<mapsto> textField t, js ''questBudget'' \<mapsto> textField bu,
                  js ''questDesc'' \<mapsto> textField d],
       checkmark := ck\<rparr>"

definition typeInto :: "jstring \<Rightarrow> jstring \<Rightarrow> browser \<Rightarrow> browser" where
  "typeInto i v b =
     (case inputs b i of None \<Rightarrow> b
      | Some el \<Rightarrow> b\<lparr>inputs := (inputs b)(i \<mapsto> el\<lparr>el_value := v\<rparr>)\<rparr>)"

text \<open>A page loaded right after a login, before the automatic redirect has fired.\<close>

definition freshSessionPage :: "jstring \<Rightarrow> browser" where
  "freshSessionPage u =
     blankPage\<lparr>localStorage := Some [storageKey \<mapsto> JSON_stringify \<lparr>username = u\<rparr>]\<rparr>"

text \<open>A page in a browser whose storage is unavailable.\<close>

definition noStoragePage :: browser where
  "noStoragePage = blankPage\<lparr>localStorage := None, sessionStorage := None\<rparr>"

definition loginPage :: "jstring \<Rightarrow> jstring \<Rightarrow> browser" where
  "loginPage u p =
     blankPage\<lparr>pathname := js ''/pages/auth/login.html'',
       inputs := [js ''username'' \<mapsto> textField u, js ''password'' \<mapsto> passwordField p]\<rparr>"

section \<open>The serialised user record determines the user\<close>

text \<open>
  Every code unit (or surrogate pair) is written as a token whose first code units tell
  which kind it is, so the quoted string can be read back in one way only.
\<close>

lemma unat_hexDigit: "n < 16 \<Longrightarrow> unat (hexDigit n) = (if n < 10 then 48 + n else 87 + n)"
  by (simp add: hexDigit_def unat_word_ariths unat_of_nat)

lemma hexDigit_inj:
  assumes "a < 16" and "b < 16" and "hexDigit a = hexDigit b"
  shows "a = b"
proof -
  from assms(3) have "unat (hexDigit a) = unat (hexDigit b)" by simp
  with assms(1,2) show ?thesis by (simp add: unat_hexDigit split: if_splits)
qed

lemma hex_digits_determine:
  fixes m n :: nat
  assumes "m div 4096 = n div 4096" and "m div 256 mod 16 = n div 256 mod 16"
    and "m div 16 mod 16 = n div 16 mod 16" and "m mod 16 = n mod 16"
  shows "m = n"
proof -
  have step: "a = b" if "a div 16 = b div 16" and "a mod 16 = b mod 16" for a b :: nat
    using that by (metis div_mult_mod_eq)
  have "m div 256 div 16 = n div 256 div 16"
    using assms(1) by (simp add: div_mult2_eq [symmetric])
  then have "m div 256 = n div 256" using assms(2) by (rule step)
  then have "m div 16 div 16 = n div 16 div 16" by (simp add: div_mult2_eq [symmetric])
  then have "m div 16 = n div 16" using assms(3) by (rule step)
  then show ?thesis using assms(4) by (rule step)
qed

lemma unicodeEscape_inj:
  assumes "unicodeEscape c = unicodeEscape d"
  shows "c = d"
proof -
  have c: "unat c < 65536" and d: "unat d < 65536"
    using unsigned_less [of c, where ?'a = nat] unsigned_less [of d, where ?'a = nat] by simp_all
  from assms have
    "hexDigit (unat c div 4096) = hexDigit (unat d div 4096)"
    "hexDigit (unat c div 256 mod 16) = hexDigit (unat d div 256 mod 16)"
    "hexDigit (unat c div 16 mod 16) = hexDigit (unat d div 16 mod 16)"
    "hexDigit (unat c mod 16) = hexDigit (unat d mod 16)"
    by (simp_all add: unicodeEscape_def)
  moreover have "unat c div 4096 < 16" "unat d div 4096 < 16" using c d by simp_all
  ultimately have
    "unat c div 4096 = unat d div 4096"
    "unat c div 256 mod 16 = unat d div 256 mod 16"
    "unat c div 16 mod 16 = unat d div 16 mod 16"
    "unat c mod 16 = unat d mod 16"
    by (auto intro: hexDigit_inj)
  then have "unat c = unat d" by (rule hex_digits_determine)
  then show ?thesis by (simp add: word_unat_eq_iff)
qed

lemma unicodeEscape_append_inj:
  "unicodeEscape c @ r = unicodeEscape d @ r' \<longleftrightarrow> c = d \<and> r = r'"
proof
  assume eq: "unicodeEscape c @ r = unicodeEscape d @ r'"
  have "length (unicodeEscape c) = length (unicodeEscape d)" by (simp add: unicodeEscape_def)
  with eq have "unicodeEscape c = unicodeEscape d" and "r = r'" by simp_all
  then show "c = d \<and> r = r'" by (blast dest: unicodeEscape_inj)
qed simp

lemma unicodeEscape_head:
  "unicodeEscape c @ r = x # r' \<Longrightarrow> x = 0x5C"
  "x # r' = unicodeEscape c @ r \<Longrightarrow> x = 0x5C"
  by (simp_all add: unicodeEscape_def)

lemma unicodeEscape_second:
  "unicodeEscape c @ r = x # y # r' \<Longrightarrow> y = 0x75"
  "x # y # r' = unicodeEscape c @ r \<Longrightarrow> y = 0x75"
  by (simp_all add: unicodeEscape_def)

lemma escapeUnit_append_inj:
  assumes "escapeUnit c @ r = escapeUnit d @ r'"
  shows "c = d \<and> r = r'"
  using assms
  by (auto simp add: escapeUnit_def unicodeEscape_append_inj split: if_splits
      dest: unicodeEscape_head unicodeEscape_second)

lemma quoteJSONChars_Cons:
  "quoteJSONChars (c # cs) =
     (if isLeadSurrogate c \<and> cs \<noteq> [] \<and> isTrailSurrogate (hd cs)
      then c # hd cs # quoteJSONChars (tl cs)
      else escapeUnit c @ quoteJSONChars cs)"
  by (cases cs) simp_all

lemma escapeUnit_not_Nil: "escapeUnit c \<noteq> []"
  by (simp add: escapeUnit_def unicodeEscape_def)

lemma quoteJSONChars_Nil_iff: "quoteJSONChars xs = [] \<longleftrightarrow> xs = []"
  by (cases xs) (simp_all add: quoteJSONChars_Cons escapeUnit_not_Nil)

lemma surrogate_pair_not_escape:
  assumes "isLeadSurrogate c"
  shows "c # r \<noteq> escapeUnit e @ r'"
  using assms
  by (auto simp add: escapeUnit_def isLeadSurrogate_def split: if_splits
      dest: unicodeEscape_head)

lemma quoteJSONChars_inj:
  "quoteJSONChars xs = quoteJSONChars ys \<Longrightarrow> xs = ys"
proof (induction "length xs" arbitrary: xs ys rule: less_induct)
  case less
  show ?case
  proof (cases xs)
    case Nil
    with less.prems quoteJSONChars_Nil_iff [of ys] show ?thesis by auto
  next
    case xs: (Cons c cs)
    show ?thesis
    proof (cases ys)
      case Nil
      with less.prems quoteJSONChars_Nil_iff [of xs] show ?thesis by auto
    next
      case ys: (Cons e es)
      let ?px = "isLeadSurrogate c \<and> cs \<noteq> [] \<and> isTrailSurrogate (hd cs)"
      let ?py = "isLeadSurrogate e \<and> es \<noteq> [] \<and> isTrailSurrogate (hd es)"
      from less.prems have eq: "quoteJSONChars (c # cs) = quoteJSONChars (e # es)"
        by (simp add: xs ys)
      show ?thesis
      proof (cases ?px)
        case px: True
        show ?thesis
        proof (cases ?py)
          case py: True
          from eq px py have heads: "c = e" "hd cs = hd es"
            and rest: "quoteJSONChars (tl cs) = quoteJSONChars (tl es)"
            by (simp_all add: quoteJSONChars_Cons)
          have "length (tl cs) < length xs" using xs by simp
          from less.hyps [OF this rest] have "tl cs = tl es" .
          with heads px py have "cs = es" by (metis list.collapse)
          with heads show ?thesis by (simp add: xs ys)
        next
          case py: False
          from eq px py have "c # hd cs # quoteJSONChars (tl cs) = escapeUnit e @ quoteJSONChars es"
            by (simp add: quoteJSONChars_Cons)
          with px surrogate_pair_not_escape show ?thesis by blast
        qed
      next
        case px: False
        show ?thesis
        proof (cases ?py)
          case py: True
          from eq px py have "e # hd es # quoteJSONChars (tl es) = escapeUnit c @ quoteJSONChars cs"
            by (simp add: quoteJSONChars_Cons)
          with py surrogate_pair_not_escape show ?thesis by blast
        next
          case py: False
          from eq px py have "escapeUnit c @ quoteJSONChars cs = escapeUnit e @ quoteJSONChars es"
            by (simp add: quoteJSONChars_Cons)
          then have both: "c = e \<and> quoteJSONChars cs = quoteJSONChars es"
            by (rule escapeUnit_append_inj)
          then have "c = e" and rest: "quoteJSONChars cs = quoteJSONChars es"
            by simp_all
          have "length cs < length xs" using xs by simp
          from less.hyps [OF this rest] \<open>c = e\<close> show ?thesis by (simp add: xs ys)
        qed
      qed
    qed
  qed
qed

lemma JSON_stringify_inj:
  assumes "JSON_stringify u = JSON_stringify v"
  shows "u = v"
proof -
  from assms have "quoteJSONChars (username u) = quoteJSONChars (username v)"
    by (simp add: JSON_stringify_def)
  then have "username u = username v" by (rule quoteJSONChars_inj)
  then show ?thesis by simp
qed

section \<open>Session store: login, logout, isLoggedIn\<close>

lemmas prog_defs = return_js_def throw_def bind_js_def
  localStorage_getItem_def localStorage_setItem_def localStorage_removeItem_def
  sessionStorage_getItem_def sessionStorage_setItem_def sessionStorage_removeItem_def
  get_pathname_def set_href_def searchParams_get_def

lemmas auth_defs = auth_login_def auth_logout_def auth_isLoggedIn_def

text \<open>
  C7. With both storage areas available, for every state and every user record \<open>u\<close>:
  \<open>isLoggedIn()\<close> right after \<open>login(u)\<close> returns true, and right after \<open>logout()\<close> returns
  false; \<open>logout()\<close> removes the persisted user and the redirect-once flag and changes nothing
  else; running it twice is the same as running it once; it leaves local storage as it is when
  no user is persisted, and the whole state as it is when the flag is absent as well.
\<close>

theorem C7_login_logout_isLoggedIn:
  assumes "localStorage b = Some l" and "sessionStorage b = Some s"
  shows "fst (bind_js (auth_login u) (\<lambda>_. auth_isLoggedIn) b) = Inr True
       \<and> fst (bind_js auth_logout (\<lambda>_. auth_isLoggedIn) b) = Inr False
       \<and> auth_logout b =
           (Inr (), b\<lparr>localStorage := Some (l(storageKey := None)),
                      sessionStorage := Some (s(redirectKey := None))\<rparr>)
       \<and> bind_js auth_logout (\<lambda>_. auth_logout) b = auth_logout b
       \<and> (l storageKey = None \<longrightarrow> localStorage (snd (auth_logout b)) = localStorage b)
       \<and> (l storageKey = None \<and> s redirectKey = None \<longrightarrow> auth_logout b = (Inr (), b))"
proof -
  have in_after_login: "fst (bind_js (auth_login u) (\<lambda>_. auth_isLoggedIn) b) = Inr True"
    using assms by (simp add: auth_defs prog_defs)
  have out_after_logout: "fst (bind_js auth_logout (\<lambda>_. auth_isLoggedIn) b) = Inr False"
    using assms by (simp add: auth_defs prog_defs)
  have out: "auth_logout b =
           (Inr (), b\<lparr>localStorage := Some (l(storageKey := None)),
                      sessionStorage := Some (s(redirectKey := None))\<rparr>)"
    using assms by (simp add: auth_defs prog_defs)
  have twice: "bind_js auth_logout (\<lambda>_. auth_logout) b = auth_logout b"
    using assms by (simp add: auth_defs prog_defs)
  have keep_local: "localStorage (snd (auth_logout b)) = localStorage b" if "l storageKey = None"
    using assms that by (simp add: out fun_upd_idem)
  have noop: "auth_logout b = (Inr (), b)" if "l storageKey = None" and "s redirectKey = None"
  proof -
    have "b\<lparr>localStorage := Some l, sessionStorage := Some s\<rparr> = b"
      using assms by (cases b) simp
    with that show ?thesis by (simp add: out fun_upd_idem)
  qed
  from in_after_login out_after_logout out twice keep_local noop show ?thesis by blast
qed

theorem C7_witness:
  "localStorage (loggedInPage (js ''bob'')) \<noteq> None
   \<and> sessionStorage (loggedInPage (js ''bob'')) \<noteq> None
   \<and> fst (auth_isLoggedIn (loggedInPage (js ''bob''))) = Inr True
   \<and> fst (bind_js (auth_login \<lparr>username = js ''eve''\<rparr>) (\<lambda>_. auth_isLoggedIn)
         (loggedInPage (js ''bob''))) = Inr True
   \<and> fst (bind_js auth_logout (\<lambda>_. auth_isLoggedIn) (loggedInPage (js ''bob''))) = Inr False
   \<and> auth_logout (loggedInPage (js ''bob'')) = (Inr (), blankPage)
   \<and> bind_js auth_logout (\<lambda>_. auth_logout) (loggedInPage (js ''bob''))
       = auth_logout (loggedInPage (js ''bob''))
   \<and> auth_logout blankPage = (Inr (), blankPage)"
  using C7_login_logout_isLoggedIn
    [of "loggedInPage (js ''bob'')"
        "[storageKey \<mapsto> JSON_stringify \<lparr>username = js ''bob''\<rparr>]"
        "[redirectKey \<mapsto> js ''1'']" "\<lparr>username = js ''eve''\<rparr>"]
    C7_login_logout_isLoggedIn [of blankPage Map.empty Map.empty "\<lparr>username = js ''eve''\<rparr>"]
  by (simp add: loggedInPage_def blankPage_def auth_isLoggedIn_def prog_defs)

section \<open>The automatic redirect\<close>

lemma redirect_result:
  assumes "localStorage b = Some l" and "sessionStorage b = Some s"
  shows "auth_redirectToQuestOnce b =
     (if l storageKey \<noteq> None \<and> s redirectKey \<noteq> Some (js ''1'')
         \<and> pop (split 0x2F (pathname b)) \<noteq> js ''questBoard.html''
         \<and> pop (split 0x2F (pathname b)) \<noteq> js ''admin.html''
      then (Inr (), b\<lparr>sessionStorage := Some (s(redirectKey \<mapsto> js ''1'')),
                       hrefs := hrefs b @ [js ''questBoard.html'']\<rparr>)
      else (Inr (), b))"
  using assms by (simp add: auth_redirectToQuestOnce_def auth_isLoggedIn_def prog_defs Let_def)

lemma redirect_flag_set:
  assumes "localStorage b = Some l" and "sessionStorage b = Some s"
    and "s redirectKey = Some (js ''1'')"
  shows "auth_redirectToQuestOnce b = (Inr (), b)"
  using assms by (simp add: redirect_result)

lemma visit_pages_flag_set:
  assumes "localStorage b = Some l" and "sessionStorage b = Some s"
    and "s redirectKey = Some (js ''1'')"
  shows "hrefs (snd (visit_pages ps b)) = hrefs b
       \<and> localStorage (snd (visit_pages ps b)) = Some l
       \<and> sessionStorage (snd (visit_pages ps b)) = Some s"
  using assms
proof (induction ps arbitrary: b)
  case Nil
  then show ?case by (simp add: return_js_def)
next
  case (Cons p ps)
  let ?b = "b\<lparr>pathname := p\<rparr>"
  have st: "localStorage ?b = Some l" "sessionStorage ?b = Some s" using Cons.prems by simp_all
  have "auth_redirectToQuestOnce ?b = (Inr (), ?b)"
    using redirect_flag_set [OF st Cons.prems(3)] .
  then have "visit_pages (p # ps) b = visit_pages ps ?b" by (simp add: bind_js_def)
  with Cons.IH [OF st Cons.prems(3)] show ?case by simp
qed

lemma visit_pages_at_most_once:
  assumes "localStorage b = Some l" and "sessionStorage b = Some s"
  shows "hrefs (snd (visit_pages ps b)) = hrefs b
       \<or> hrefs (snd (visit_pages ps b)) = hrefs b @ [js ''questBoard.html'']"
  using assms
proof (induction ps arbitrary: b)
  case Nil
  then show ?case by (simp add: return_js_def)
next
  case (Cons p ps)
  let ?b = "b\<lparr>pathname := p\<rparr>"
  have st: "localStorage ?b = Some l" "sessionStorage ?b = Some s" using Cons.prems by simp_all
  show ?case
  proof (cases "auth_redirectToQuestOnce ?b = (Inr (), ?b)")
    case True
    then have "visit_pages (p # ps) b = visit_pages ps ?b" by (simp add: bind_js_def)
    with Cons.IH [OF st] show ?thesis by simp
  next
    case False
    let ?b1 = "?b\<lparr>sessionStorage := Some (s(redirectKey \<mapsto> js ''1'')),
                  hrefs := hrefs ?b @ [js ''questBoard.html'']\<rparr>"
    from False have fired: "auth_redirectToQuestOnce ?b = (Inr (), ?b1)"
      using redirect_result [OF st] by (simp split: if_splits)
    then have "visit_pages (p # ps) b = visit_pages ps ?b1" by (simp add: bind_js_def)
    moreover have "hrefs (snd (visit_pages ps ?b1)) = hrefs ?b1"
      using visit_pages_flag_set [of ?b1 l "s(redirectKey \<mapsto> js ''1'')" ps] Cons.prems by simp
    ultimately show ?thesis by simp
  qed
qed

text \<open>
  What the code does. With storage available, \<open>redirectToQuestOnce\<close> sets the session flag
  to \<open>1\<close> and assigns \<^verbatim>\<open>questBoard.html\<close> to \<^verbatim>\<open>location.href\<close> exactly when the user is logged
  in, the flag is not yet \<open>1\<close>, and the file name of the current path is neither
  \<^verbatim>\<open>questBoard.html\<close> nor \<^verbatim>\<open>admin.html\<close>; in every other state it changes nothing. After a load
  of such a page by a logged-in user, the call is a no-op on every later page that sees the
  same storage, and any sequence of page loads in the session adds at most one navigation.
  The only admin page the test knows is the one named \<^verbatim>\<open>admin.html\<close>.
\<close>

lemma redirect_once_per_session:
  assumes "localStorage b = Some l" and "sessionStorage b = Some s"
  shows "auth_redirectToQuestOnce b =
     (if l storageKey \<noteq> None \<and> s redirectKey \<noteq> Some (js ''1'')
         \<and> pop (split 0x2F (pathname b)) \<noteq> js ''questBoard.html''
         \<and> pop (split 0x2F (pathname b)) \<noteq> js ''admin.html''
      then (Inr (), b\<lparr>sessionStorage := Some (s(redirectKey \<mapsto> js ''1'')),
                       hrefs := hrefs b @ [js ''questBoard.html'']\<rparr>)
      else (Inr (), b))
   \<and> (l storageKey \<noteq> None
        \<and> pop (split 0x2F (pathname b)) \<noteq> js ''questBoard.html''
        \<and> pop (split 0x2F (pathname b)) \<noteq> js ''admin.html'' \<longrightarrow>
       (\<forall>b'. localStorage b' = localStorage (snd (auth_redirectToQuestOnce b))
            \<and> sessionStorage b' = sessionStorage (snd (auth_redirectToQuestOnce b))
            \<longrightarrow> auth_redirectToQuestOnce b' = (Inr (), b')))
   \<and> (\<forall>ps. hrefs (snd (visit_pages ps b)) = hrefs b
          \<or> hrefs (snd (visit_pages ps b)) = hrefs b @ [js ''questBoard.html''])"
proof (intro conjI impI allI)
  show "auth_redirectToQuestOnce b =
     (if l storageKey \<noteq> None \<and> s redirectKey \<noteq> Some (js ''1'')
         \<and> pop (split 0x2F (pathname b)) \<noteq> js ''questBoard.html''
         \<and> pop (split 0x2F (pathname b)) \<noteq> js ''admin.html''
      then (Inr (), b\<lparr>sessionStorage := Some (s(redirectKey \<mapsto> js ''1'')),
                       hrefs := hrefs b @ [js ''questBoard.html'']\<rparr>)
      else (Inr (), b))"
    using assms by (rule redirect_result)
next
  fix b' :: browser
  assume page: "l storageKey \<noteq> None
        \<and> pop (split 0x2F (pathname b)) \<noteq> js ''questBoard.html''
        \<and> pop (split 0x2F (pathname b)) \<noteq> js ''admin.html''"
    and same: "localStorage b' = localStorage (snd (auth_redirectToQuestOnce b))
            \<and> sessionStorage b' = sessionStorage (snd (auth_redirectToQuestOnce b))"
  obtain s' where s': "sessionStorage (snd (auth_redirectToQuestOnce b)) = Some s'"
      "s' redirectKey = Some (js ''1'')"
    and l': "localStorage (snd (auth_redirectToQuestOnce b)) = Some l"
    using assms page by (cases "s redirectKey = Some (js ''1'')") (simp_all add: redirect_result)
  with same show "auth_redirectToQuestOnce b' = (Inr (), b')"
    by (simp add: redirect_flag_set)
next
  fix ps
  show "hrefs (snd (visit_pages ps b)) = hrefs b
          \<or> hrefs (snd (visit_pages ps b)) = hrefs b @ [js ''questBoard.html'']"
    using assms by (rule visit_pages_at_most_once)
qed

lemma redirect_once_per_session_example:
  "localStorage (freshSessionPage (js ''bob'')) \<noteq> None
   \<and> sessionStorage (freshSessionPage (js ''bob'')) = Some Map.empty
   \<and> pathname (freshSessionPage (js ''bob'')) = js ''/index.html''
   \<and> auth_redirectToQuestOnce (freshSessionPage (js ''bob'')) =
       (Inr (), (freshSessionPage (js ''bob''))
          \<lparr>sessionStorage := Some [redirectKey \<mapsto> js ''1''], hrefs := [js ''questBoard.html'']\<rparr>)
   \<and> auth_redirectToQuestOnce (loggedInPage (js ''bob'')\<lparr>pathname := js ''/services.html''\<rparr>) =
       (Inr (), loggedInPage (js ''bob'')\<lparr>pathname := js ''/services.html''\<rparr>)
   \<and> hrefs (snd (visit_pages [js ''/index.html'', js ''/services.html'']
          (freshSessionPage (js ''bob'')))) = [js ''questBoard.html'']"
proof -
  let ?b = "freshSessionPage (js ''bob'')"
  let ?l = "[storageKey \<mapsto> JSON_stringify \<lparr>username = js ''bob''\<rparr>]"
  let ?b2 = "loggedInPage (js ''bob'')\<lparr>pathname := js ''/services.html''\<rparr>"
  have st: "localStorage ?b = Some ?l" "sessionStorage ?b = Some Map.empty"
    by (simp_all add: freshSessionPage_def blankPage_def)
  have page: "pathname ?b = js ''/index.html''"
    by (simp add: freshSessionPage_def blankPage_def)
  have seg: "pop (split 0x2F (js ''/index.html'')) = js ''index.html''"
    by (simp add: pop_def js_def)
  have neq: "js ''index.html'' \<noteq> js ''questBoard.html''" "js ''index.html'' \<noteq> js ''admin.html''"
    by (simp_all add: js_def)
  note c3 = redirect_once_per_session [OF st]
  from c3 have first: "auth_redirectToQuestOnce ?b =
       (Inr (), ?b\<lparr>sessionStorage := Some [redirectKey \<mapsto> js ''1''],
                    hrefs := [js ''questBoard.html'']\<rparr>)"
    using neq by (simp add: page seg) (simp add: freshSessionPage_def blankPage_def)
  have same: "localStorage ?b2 = localStorage (snd (auth_redirectToQuestOnce ?b))
      \<and> sessionStorage ?b2 = sessionStorage (snd (auth_redirectToQuestOnce ?b))"
    by (simp add: first) (simp add: loggedInPage_def freshSessionPage_def blankPage_def)
  from c3 neq same have second: "auth_redirectToQuestOnce ?b2 = (Inr (), ?b2)"
    by (simp add: page seg)
  from c3 have third:
    "hrefs (snd (visit_pages [js ''/index.html'', js ''/services.html''] ?b)) = hrefs ?b
     \<or> hrefs (snd (visit_pages [js ''/index.html'', js ''/services.html''] ?b))
         = hrefs ?b @ [js ''questBoard.html'']"
    by blast
  have none: "hrefs ?b = []" by (simp add: freshSessionPage_def blankPage_def)
  have "hrefs (snd (visit_pages [js ''/index.html'', js ''/services.html''] ?b)) \<noteq> []"
    by (simp add: freshSessionPage_def blankPage_def auth_redirectToQuestOnce_def
        auth_isLoggedIn_def prog_defs pop_def js_def storageKey_def redirectKey_def)
  with st page first second third none show ?thesis by simp
qed

text \<open>
  C3 at a failing input. The claim (with the script's own comment, "Don't redirect when already
  redirected, on quest board, or on admin pages") makes the call a no-op on every admin page.
  For a logged-in user whose flag is not set, the call is a no-op on \<^verbatim>\<open>/admin/admin.html\<close>, the
  page the login handler sends the administrator to, and on the quest board; on the admin
  page \<^verbatim>\<open>/pages/admin/users.html\<close> it sets the flag and navigates to \<^verbatim>\<open>questBoard.html\<close>,
  because the test compares the file name with \<^verbatim>\<open>admin.html\<close> only.
\<close>

theorem C3_redirect_fires_on_admin_users_page:
  "auth_redirectToQuestOnce (freshSessionPage (js ''admin'')\<lparr>pathname := js ''/admin/admin.html''\<rparr>)
     = (Inr (), freshSessionPage (js ''admin'')\<lparr>pathname := js ''/admin/admin.html''\<rparr>)
   \<and> auth_redirectToQuestOnce
       (freshSessionPage (js ''admin'')\<lparr>pathname := js ''/pages/quests/questBoard.html''\<rparr>)
     = (Inr (), freshSessionPage (js ''admin'')\<lparr>pathname := js ''/pages/quests/questBoard.html''\<rparr>)
   \<and> auth_redirectToQuestOnce
       (freshSessionPage (js ''admin'')\<lparr>pathname := js ''/pages/admin/users.html''\<rparr>)
     = (Inr (), freshSessionPage (js ''admin'')
          \<lparr>pathname := js ''/pages/admin/users.html'',
           sessionStorage := Some [redirectKey \<mapsto> js ''1''],
           hrefs := [js ''questBoard.html'']\<rparr>)"
proof -
  let ?l = "[storageKey \<mapsto> JSON_stringify \<lparr>username = js ''admin''\<rparr>]"
  have st: "localStorage (freshSessionPage (js ''admin'')\<lparr>pathname := p\<rparr>) = Some ?l"
      "sessionStorage (freshSessionPage (js ''admin'')\<lparr>pathname := p\<rparr>) = Some Map.empty"
      "hrefs (freshSessionPage (js ''admin'')\<lparr>pathname := p\<rparr>) = []"
    for p
    by (simp_all add: freshSessionPage_def blankPage_def)
  have seg: "pop (split 0x2F (js ''/admin/admin.html'')) = js ''admin.html''"
      "pop (split 0x2F (js ''/pages/quests/questBoard.html'')) = js ''questBoard.html''"
      "pop (split 0x2F (js ''/pages/admin/users.html'')) = js ''users.html''"
    by (simp_all add: pop_def js_def)
  have neq: "js ''users.html'' \<noteq> js ''questBoard.html''" "js ''users.html'' \<noteq> js ''admin.html''"
    by (simp_all add: js_def)
  have 1: "auth_redirectToQuestOnce (freshSessionPage (js ''admin'')\<lparr>pathname := js ''/admin/admin.html''\<rparr>)
     = (Inr (), freshSessionPage (js ''admin'')\<lparr>pathname := js ''/admin/admin.html''\<rparr>)"
    by (simp add: redirect_result [OF st(1,2)] seg)
  have 2: "auth_redirectToQuestOnce
       (freshSessionPage (js ''admin'')\<lparr>pathname := js ''/pages/quests/questBoard.html''\<rparr>)
     = (Inr (), freshSessionPage (js ''admin'')\<lparr>pathname := js ''/pages/quests/questBoard.html''\<rparr>)"
    by (simp add: redirect_result [OF st(1,2)] seg)
  have 3: "auth_redirectToQuestOnce
       (freshSessionPage (js ''admin'')\<lparr>pathname := js ''/pages/admin/users.html''\<rparr>)
     = (Inr (), freshSessionPage (js ''admin'')
          \<lparr>pathname := js ''/pages/admin/users.html'',
           sessionStorage := Some [redirectKey \<mapsto> js ''1''],
           hrefs := [js ''questBoard.html'']\<rparr>)"
    using neq by (simp add: redirect_result [OF st(1,2)] seg st(3))
  from 1 2 3 show ?thesis by simp
qed

section \<open>Unavailable storage\<close>

text \<open>
  C4, as amended. While local storage is unavailable, each of \<open>login\<close>, \<open>logout\<close>,
  \<open>isLoggedIn\<close> and \<open>redirectToQuestOnce\<close> throws the storage error to its caller and leaves
  the state as it was: the script has no handler that turns the failure into "not logged in".
\<close>

theorem C4_storage_unavailable:
  assumes "localStorage b = None"
  shows "auth_login u b = (Inl SecurityError, b)
       \<and> auth_logout b = (Inl SecurityError, b)
       \<and> auth_isLoggedIn b = (Inl SecurityError, b)
       \<and> auth_redirectToQuestOnce b = (Inl SecurityError, b)"
  using assms
  by (simp add: auth_defs auth_redirectToQuestOnce_def prog_defs)

theorem C4_witness:
  "localStorage noStoragePage = None
   \<and> auth_login \<lparr>username = js ''bob''\<rparr> noStoragePage = (Inl SecurityError, noStoragePage)
   \<and> auth_logout noStoragePage = (Inl SecurityError, noStoragePage)
   \<and> auth_isLoggedIn noStoragePage = (Inl SecurityError, noStoragePage)
   \<and> auth_redirectToQuestOnce noStoragePage = (Inl SecurityError, noStoragePage)"
  using C4_storage_unavailable [of noStoragePage "\<lparr>username = js ''bob''\<rparr>"]
  by (simp add: noStoragePage_def)

text \<open>
  C4 as stated fails: in a browser without storage \<open>isLoggedIn\<close> does not answer false, and
  no operation returns normally.
\<close>

theorem C4_counterexample:
  "fst (auth_isLoggedIn noStoragePage) = Inl SecurityError
   \<and> fst (auth_login \<lparr>username = js ''bob''\<rparr> noStoragePage) = Inl SecurityError
   \<and> fst (auth_logout noStoragePage) = Inl SecurityError
   \<and> fst (auth_redirectToQuestOnce noStoragePage) = Inl SecurityError"
  by (simp add: noStoragePage_def auth_defs auth_redirectToQuestOnce_def prog_defs)

section \<open>The login form\<close>

lemma trim_empty_iff: "trim s = [] \<longleftrightarrow> list_all isWhiteSpace s"
proof
  assume "trim s = []"
  then have all: "\<forall>c \<in> set (dropWhile isWhiteSpace s). isWhiteSpace c"
    by (simp add: trim_def dropWhile_eq_Nil_conv)
  have "dropWhile isWhiteSpace s = []"
  proof (rule ccontr)
    assume ne: "dropWhile isWhiteSpace s \<noteq> []"
    then have "\<not> isWhiteSpace (hd (dropWhile isWhiteSpace s))" by (rule hd_dropWhile)
    moreover from ne have "hd (dropWhile isWhiteSpace s) \<in> set (dropWhile isWhiteSpace s)"
      by (rule hd_in_set)
    ultimately show False using all by blast
  qed
  then show "list_all isWhiteSpace s" by (simp add: dropWhile_eq_Nil_conv list_all_iff)
next
  assume "list_all isWhiteSpace s"
  then have "dropWhile isWhiteSpace s = []" by (simp add: dropWhile_eq_Nil_conv list_all_iff)
  then show "trim s = []" by (simp only: trim_def rev.simps dropWhile.simps)
qed

lemma login_rejected:
  assumes "inputs b (js ''username'') = Some ue" and "inputs b (js ''password'') = Some pe"
    and "trim (el_value ue) = [] \<or> el_value pe = []"
  shows "login_submit b =
     (Inr (), b\<lparr>messages := [\<lparr>msg_text = js ''Please enter both username and password.'',
                               msg_class = js ''error'', msg_checkmark = False\<rparr>],
               checkmark := (if list_ex msg_checkmark (messages b) then None else checkmark b)\<rparr>)"
  using assms
  by (auto simp add: login_submit_def clearMessages_def input_value_def showMessage_def alert_def
      return_js_def bind_js_def Let_def)

lemma login_admin:
  assumes "inputs b (js ''username'') = Some ue" and "inputs b (js ''password'') = Some pe"
    and "localStorage b = Some l"
    and "trim (el_value ue) = js ''admin''" and "el_value pe = js ''admin123''"
  shows "login_submit b =
     (Inr (), b\<lparr>messages := [\<lparr>msg_text = js ''Admin login successful! Redirecting...'',
                               msg_class = js ''success'', msg_checkmark = False\<rparr>],
               checkmark := (if list_ex msg_checkmark (messages b) then None else checkmark b),
               localStorage := Some (l(storageKey \<mapsto> JSON_stringify \<lparr>username = js ''admin''\<rparr>)),
               hrefs := hrefs b @ [adminPath (pathname b)]\<rparr>)"
proof -
  have "js ''admin'' \<noteq> []" "js ''admin123'' \<noteq> []" by (simp_all add: js_def)
  with assms show ?thesis
    by (simp add: login_submit_def clearMessages_def input_value_def showMessage_def alert_def
        auth_login_def localStorage_setItem_def get_pathname_def set_href_def
        return_js_def bind_js_def Let_def)
qed

lemma login_ordinary:
  assumes "inputs b (js ''username'') = Some ue" and "inputs b (js ''password'') = Some pe"
    and "localStorage b = Some l"
    and "trim (el_value ue) \<noteq> []" and "el_value pe \<noteq> []"
    and "\<not> (trim (el_value ue) = js ''admin'' \<and> el_value pe = js ''admin123'')"
  shows "login_submit b =
     (Inr (), b\<lparr>messages := [],
               checkmark := (if list_ex msg_checkmark (messages b) then None else checkmark b),
               localStorage := Some (l(storageKey \<mapsto> JSON_stringify \<lparr>username = trim (el_value ue)\<rparr>)),
               hrefs := hrefs b @ [returnUrl_or (map_of (searchParams b) (js ''return''))
                                     (questBoardPath (pathname b))]\<rparr>)"
  using assms
  by (auto simp add: login_submit_def clearMessages_def input_value_def showMessage_def alert_def
      auth_login_def localStorage_setItem_def get_pathname_def set_href_def searchParams_get_def
      return_js_def bind_js_def Let_def)

lemma login_not_rejected_no_error:
  assumes "inputs b (js ''username'') = Some ue" and "inputs b (js ''password'') = Some pe"
    and "trim (el_value ue) \<noteq> []" and "el_value pe \<noteq> []"
  shows "\<not> list_ex (\<lambda>m. msg_class m = js ''error'') (messages (snd (login_submit b)))"
proof -
  have ne: "js ''success'' \<noteq> js ''error''" by (simp add: js_def)
  show ?thesis
  proof (cases "localStorage b")
    case None
    with assms ne show ?thesis
      by (simp add: login_submit_def clearMessages_def input_value_def showMessage_def alert_def
          auth_login_def localStorage_setItem_def throw_def
          return_js_def bind_js_def Let_def)
  next
    case (Some l)
    show ?thesis
    proof (cases "trim (el_value ue) = js ''admin'' \<and> el_value pe = js ''admin123''")
      case True
      with assms Some ne show ?thesis by (simp add: login_admin)
    next
      case False
      with assms Some show ?thesis by (simp add: login_ordinary)
    qed
  qed
qed

lemma login_not_rejected_logs_in:
  assumes "inputs b (js ''username'') = Some ue" and "inputs b (js ''password'') = Some pe"
    and "localStorage b = Some l"
    and "trim (el_value ue) \<noteq> []" and "el_value pe \<noteq> []"
  shows "fst (login_submit b) = Inr ()
       \<and> localStorage (snd (login_submit b)) =
           Some (l(storageKey \<mapsto> JSON_stringify \<lparr>username = trim (el_value ue)\<rparr>))
       \<and> fst (auth_isLoggedIn (snd (login_submit b))) = Inr True
       \<and> length (hrefs (snd (login_submit b))) = Suc (length (hrefs b))"
proof (cases "trim (el_value ue) = js ''admin'' \<and> el_value pe = js ''admin123''")
  case True
  with assms show ?thesis
    by (simp add: login_admin auth_isLoggedIn_def localStorage_getItem_def return_js_def bind_js_def)
next
  case False
  with assms show ?thesis
    by (simp add: login_ordinary auth_isLoggedIn_def localStorage_getItem_def return_js_def
        bind_js_def)
qed

text \<open>
  C1, as amended. For every submission of the login form (both fields on the page, local
  storage available) with a username that is non-empty after trimming and a non-empty
  password, the pair not being \<open>admin\<close>/\<open>admin123\<close>: the handler stores the serialised record
  of the trimmed username under the session key and then assigns to \<^verbatim>\<open>location.href\<close> the value
  of the \<open>return\<close> query parameter when that is present and not empty, and otherwise the
  quest-board path; it shows no message and changes nothing else.
\<close>

theorem C1_login_records_username_and_navigates:
  assumes "inputs b (js ''username'') = Some ue" and "inputs b (js ''password'') = Some pe"
    and "localStorage b = Some l"
    and "trim (el_value ue) \<noteq> []" and "el_value pe \<noteq> []"
    and "\<not> (trim (el_value ue) = js ''admin'' \<and> el_value pe = js ''admin123'')"
  shows "login_submit b =
     (Inr (), b\<lparr>messages := [],
               checkmark := (if list_ex msg_checkmark (messages b) then None else checkmark b),
               localStorage := Some (l(storageKey \<mapsto> JSON_stringify \<lparr>username = trim (el_value ue)\<rparr>)),
               hrefs := hrefs b @ [returnUrl_or (map_of (searchParams b) (js ''return''))
                                     (questBoardPath (pathname b))]\<rparr>)
   \<and> (\<forall>r. map_of (searchParams b) (js ''return'') = Some r \<and> r \<noteq> [] \<longrightarrow>
          hrefs (snd (login_submit b)) = hrefs b @ [r])
   \<and> (map_of (searchParams b) (js ''return'') = None
        \<or> map_of (searchParams b) (js ''return'') = Some [] \<longrightarrow>
          hrefs (snd (login_submit b)) = hrefs b @ [questBoardPath (pathname b)])"
proof -
  note out = login_ordinary [OF assms]
  show ?thesis
    by (rule conjI, rule out) (auto simp add: out returnUrl_or_def)
qed

theorem C1_witness:
  "inputs (loginPage (js ''bob'') (js ''pw'')) (js ''username'') = Some (textField (js ''bob''))
   \<and> inputs (loginPage (js ''bob'') (js ''pw'')) (js ''password'') = Some (passwordField (js ''pw''))
   \<and> localStorage (loginPage (js ''bob'') (js ''pw'')) = Some Map.empty
   \<and> trim (js ''bob'') = js ''bob''
   \<and> login_submit (loginPage (js ''bob'') (js ''pw'')) =
       (Inr (), loginPage (js ''bob'') (js ''pw'')
          \<lparr>localStorage := Some [storageKey \<mapsto> JSON_stringify \<lparr>username = js ''bob''\<rparr>],
           hrefs := [js ''../quests/questBoard.html'']\<rparr>)
   \<and> hrefs (snd (login_submit (loginPage (js ''bob'') (js ''pw'')
          \<lparr>searchParams := [(js ''return'', js ''/pages/questgiver/postquest.html'')]\<rparr>)))
       = [js ''/pages/questgiver/postquest.html'']"
proof -
  let ?b = "loginPage (js ''bob'') (js ''pw'')"
  let ?q = "?b\<lparr>searchParams := [(js ''return'', js ''/pages/questgiver/postquest.html'')]\<rparr>"
  have f: "inputs ?b (js ''username'') = Some (textField (js ''bob''))"
      "inputs ?b (js ''password'') = Some (passwordField (js ''pw''))"
      "localStorage ?b = Some Map.empty"
    by (simp_all add: loginPage_def blankPage_def js_def)
  have fq: "inputs ?q (js ''username'') = Some (textField (js ''bob''))"
      "inputs ?q (js ''password'') = Some (passwordField (js ''pw''))"
      "localStorage ?q = Some Map.empty"
    using f by simp_all
  have v: "trim (el_value (textField (js ''bob''))) = js ''bob''"
      "el_value (passwordField (js ''pw'')) = js ''pw''"
    by (simp_all add: textField_def passwordField_def trim_def isWhiteSpace_def js_def)
  have ne: "js ''bob'' \<noteq> []" "js ''pw'' \<noteq> []" "js ''bob'' \<noteq> js ''admin''"
    by (simp_all add: js_def)
  have h: "trim (el_value (textField (js ''bob''))) \<noteq> []"
      "el_value (passwordField (js ''pw'')) \<noteq> []"
      "\<not> (trim (el_value (textField (js ''bob''))) = js ''admin''
          \<and> el_value (passwordField (js ''pw'')) = js ''admin123'')"
    using ne by (simp_all add: v)
  have path: "questBoardPath (pathname ?b) = js ''../quests/questBoard.html''"
    by (simp add: questBoardPath_def loginPage_def blankPage_def js_def)
  have "login_submit ?b = (Inr (), ?b
          \<lparr>localStorage := Some [storageKey \<mapsto> JSON_stringify \<lparr>username = js ''bob''\<rparr>],
           hrefs := [js ''../quests/questBoard.html'']\<rparr>)"
    using C1_login_records_username_and_navigates [OF f h]
    by (simp add: v path returnUrl_or_def) (simp add: loginPage_def blankPage_def)
  moreover have "hrefs (snd (login_submit ?q)) = [js ''/pages/questgiver/postquest.html'']"
    using C1_login_records_username_and_navigates [OF fq h]
    by (simp add: returnUrl_or_def) (simp add: loginPage_def blankPage_def js_def)
  moreover have "trim (js ''bob'') = js ''bob''"
    using v by (simp add: textField_def)
  ultimately show ?thesis using f by simp
qed

text \<open>
  C1 as stated fails for \<^verbatim>\<open>?return=\<close>: the parameter is present, with the empty string as its
  value, and the handler goes to the quest board instead.
\<close>

theorem C1_counterexample:
  "map_of (searchParams (loginPage (js ''bob'') (js ''pw'')\<lparr>searchParams := [(js ''return'', [])]\<rparr>))
      (js ''return'') = Some []
   \<and> hrefs (snd (login_submit
        (loginPage (js ''bob'') (js ''pw'')\<lparr>searchParams := [(js ''return'', [])]\<rparr>)))
       = [js ''../quests/questBoard.html'']
   \<and> js ''../quests/questBoard.html'' \<noteq> []"
proof -
  let ?b = "loginPage (js ''bob'') (js ''pw'')\<lparr>searchParams := [(js ''return'', [])]\<rparr>"
  have f: "inputs ?b (js ''username'') = Some (textField (js ''bob''))"
      "inputs ?b (js ''password'') = Some (passwordField (js ''pw''))"
      "localStorage ?b = Some Map.empty"
    by (simp_all add: loginPage_def blankPage_def js_def)
  have h: "trim (el_value (textField (js ''bob''))) \<noteq> []"
      "el_value (passwordField (js ''pw'')) \<noteq> []"
      "\<not> (trim (el_value (textField (js ''bob''))) = js ''admin''
          \<and> el_value (passwordField (js ''pw'')) = js ''admin123'')"
    by (simp_all add: textField_def passwordField_def trim_def isWhiteSpace_def js_def)
  have "hrefs (snd (login_submit ?b)) = [js ''../quests/questBoard.html'']"
    by (simp add: login_ordinary [OF f h] returnUrl_or_def questBoardPath_def)
       (simp add: loginPage_def blankPage_def js_def)
  then show ?thesis by (simp add: js_def)
qed

text \<open>
  C2. For every submission of the login form (both fields on the page, local storage
  available) whose trimmed username is \<open>admin\<close> and whose password is \<open>admin123\<close>: the
  handler shows the success message, stores the session, and assigns the admin path to
  \<^verbatim>\<open>location.href\<close>; whatever the query string holds, that is the only navigation.
\<close>

theorem C2_admin_login_goes_to_admin:
  assumes "inputs b (js ''username'') = Some ue" and "inputs b (js ''password'') = Some pe"
    and "localStorage b = Some l"
    and "trim (el_value ue) = js ''admin''" and "el_value pe = js ''admin123''"
  shows "login_submit b =
     (Inr (), b\<lparr>messages := [\<lparr>msg_text = js ''Admin login successful! Redirecting...'',
                               msg_class = js ''success'', msg_checkmark = False\<rparr>],
               checkmark := (if list_ex msg_checkmark (messages b) then None else checkmark b),
               localStorage := Some (l(storageKey \<mapsto> JSON_stringify \<lparr>username = js ''admin''\<rparr>)),
               hrefs := hrefs b @ [adminPath (pathname b)]\<rparr>)
   \<and> (\<forall>q. hrefs (snd (login_submit (b\<lparr>searchParams := q\<rparr>))) = hrefs b @ [adminPath (pathname b)])"
proof (intro conjI allI)
  show "login_submit b =
     (Inr (), b\<lparr>messages := [\<lparr>msg_text = js ''Admin login successful! Redirecting...'',
                               msg_class = js ''success'', msg_checkmark = False\<rparr>],
               checkmark := (if list_ex msg_checkmark (messages b) then None else checkmark b),
               localStorage := Some (l(storageKey \<mapsto> JSON_stringify \<lparr>username = js ''admin''\<rparr>)),
               hrefs := hrefs b @ [adminPath (pathname b)]\<rparr>)"
    using assms by (rule login_admin)
next
  fix q
  let ?b = "b\<lparr>searchParams := q\<rparr>"
  have "inputs ?b (js ''username'') = Some ue" "inputs ?b (js ''password'') = Some pe"
      "localStorage ?b = Some l"
    using assms by simp_all
  from login_admin [OF this assms(4,5)]
  show "hrefs (snd (login_submit ?b)) = hrefs b @ [adminPath (pathname b)]" by simp
qed

theorem C2_witness:
  "inputs (loginPage (js ''admin'') (js ''admin123'')) (js ''username'')
      = Some (textField (js ''admin''))
   \<and> inputs (loginPage (js ''admin'') (js ''admin123'')) (js ''password'')
      = Some (passwordField (js ''admin123''))
   \<and> localStorage (loginPage (js ''admin'') (js ''admin123'')) = Some Map.empty
   \<and> trim (js ''admin'') = js ''admin''
   \<and> fst (login_submit (loginPage (js ''admin'') (js ''admin123''))) = Inr ()
   \<and> localStorage (snd (login_submit (loginPage (js ''admin'') (js ''admin123''))))
      = Some [storageKey \<mapsto> JSON_stringify \<lparr>username = js ''admin''\<rparr>]
   \<and> hrefs (snd (login_submit (loginPage (js ''admin'') (js ''admin123''))))
      = [js ''../../admin/admin.html'']
   \<and> hrefs (snd (login_submit (loginPage (js ''admin'') (js ''admin123'')
          \<lparr>searchParams := [(js ''return'', js ''/pages/questgiver/postquest.html'')]\<rparr>)))
      = [js ''../../admin/admin.html'']"
proof -
  let ?b = "loginPage (js ''admin'') (js ''admin123'')"
  have f: "inputs ?b (js ''username'') = Some (textField (js ''admin''))"
      "inputs ?b (js ''password'') = Some (passwordField (js ''admin123''))"
      "localStorage ?b = Some Map.empty"
    by (simp_all add: loginPage_def blankPage_def js_def)
  have t: "trim (js ''admin'') = js ''admin''"
    by (simp add: trim_def isWhiteSpace_def js_def)
  have h: "trim (el_value (textField (js ''admin''))) = js ''admin''"
      "el_value (passwordField (js ''admin123'')) = js ''admin123''"
    using t by (simp_all add: textField_def passwordField_def)
  have path: "adminPath (pathname ?b) = js ''../../admin/admin.html''" "hrefs ?b = []"
    by (simp_all add: adminPath_def loginPage_def blankPage_def js_def)
  note c2 = C2_admin_login_goes_to_admin [OF f h]
  from c2 have 1: "fst (login_submit ?b) = Inr ()"
      "localStorage (snd (login_submit ?b))
        = Some [storageKey \<mapsto> JSON_stringify \<lparr>username = js ''admin''\<rparr>]"
      "hrefs (snd (login_submit ?b)) = [js ''../../admin/admin.html'']"
    by (simp_all add: path)
  from c2 have 2: "hrefs (snd (login_submit
      (?b\<lparr>searchParams := [(js ''return'', js ''/pages/questgiver/postquest.html'')]\<rparr>)))
      = [js ''../../admin/admin.html'']"
    by (simp add: path)
  from f t 1 2 show ?thesis by simp
qed

text \<open>
  C6. For every submission of the login form in which the username is empty after trimming or
  the password is empty, the handler replaces the messages by the one error message and
  returns: both storage areas, the navigations and the timers are as before. An error message
  is shown in exactly these cases; every other submission, with local storage available, logs
  the user in and navigates.
\<close>

theorem C6_login_rejects_only_emptiness:
  assumes "inputs b (js ''username'') = Some ue" and "inputs b (js ''password'') = Some pe"
  shows "(trim (el_value ue) = [] \<or> el_value pe = [] \<longrightarrow>
            login_submit b =
              (Inr (), b\<lparr>messages := [\<lparr>msg_text = js ''Please enter both username and password.'',
                                        msg_class = js ''error'', msg_checkmark = False\<rparr>],
                        checkmark := (if list_ex msg_checkmark (messages b) then None
                                      else checkmark b)\<rparr>)
            \<and> localStorage (snd (login_submit b)) = localStorage b
            \<and> sessionStorage (snd (login_submit b)) = sessionStorage b
            \<and> hrefs (snd (login_submit b)) = hrefs b
            \<and> timers (snd (login_submit b)) = timers b)
       \<and> (list_ex (\<lambda>m. msg_class m = js ''error'') (messages (snd (login_submit b)))
            \<longleftrightarrow> trim (el_value ue) = [] \<or> el_value pe = [])
       \<and> (trim (el_value ue) \<noteq> [] \<and> el_value pe \<noteq> [] \<and> localStorage b \<noteq> None \<longrightarrow>
            fst (login_submit b) = Inr ()
            \<and> fst (auth_isLoggedIn (snd (login_submit b))) = Inr True
            \<and> length (hrefs (snd (login_submit b))) = Suc (length (hrefs b)))"
proof (intro conjI impI)
  assume empty: "trim (el_value ue) = [] \<or> el_value pe = []"
  note out = login_rejected [OF assms empty]
  show "login_submit b =
              (Inr (), b\<lparr>messages := [\<lparr>msg_text = js ''Please enter both username and password.'',
                                        msg_class = js ''error'', msg_checkmark = False\<rparr>],
                        checkmark := (if list_ex msg_checkmark (messages b) then None
                                      else checkmark b)\<rparr>)"
    by (rule out)
  show "localStorage (snd (login_submit b)) = localStorage b" by (simp add: out)
  show "sessionStorage (snd (login_submit b)) = sessionStorage b" by (simp add: out)
  show "hrefs (snd (login_submit b)) = hrefs b" by (simp add: out)
  show "timers (snd (login_submit b)) = timers b" by (simp add: out)
next
  show "list_ex (\<lambda>m. msg_class m = js ''error'') (messages (snd (login_submit b)))
            \<longleftrightarrow> trim (el_value ue) = [] \<or> el_value pe = []"
  proof (cases "trim (el_value ue) = [] \<or> el_value pe = []")
    case True
    from login_rejected [OF assms True] True show ?thesis by simp
  next
    case False
    with login_not_rejected_no_error [OF assms] show ?thesis by simp
  qed
next
  assume ok: "trim (el_value ue) \<noteq> [] \<and> el_value pe \<noteq> [] \<and> localStorage b \<noteq> None"
  then obtain l where l: "localStorage b = Some l" by auto
  from ok login_not_rejected_logs_in [OF assms l]
  show "fst (login_submit b) = Inr ()"
    and "fst (auth_isLoggedIn (snd (login_submit b))) = Inr True"
    and "length (hrefs (snd (login_submit b))) = Suc (length (hrefs b))"
    by simp_all
qed

theorem C6_witness:
  "inputs (loginPage [] (js ''pw'')) (js ''username'') = Some (textField [])
   \<and> inputs (loginPage [] (js ''pw'')) (js ''password'') = Some (passwordField (js ''pw''))
   \<and> trim (el_value (textField [])) = []
   \<and> login_submit (loginPage [] (js ''pw'')) =
       (Inr (), loginPage [] (js ''pw'')
          \<lparr>messages := [\<lparr>msg_text = js ''Please enter both username and password.'',
                         msg_class = js ''error'', msg_checkmark = False\<rparr>]\<rparr>)
   \<and> localStorage (snd (login_submit (loginPage [] (js ''pw'')))) = Some Map.empty
   \<and> hrefs (snd (login_submit (loginPage [] (js ''pw'')))) = []
   \<and> el_value (passwordField []) = []
   \<and> localStorage (snd (login_submit (loginPage (js ''bob'') []))) = Some Map.empty
   \<and> hrefs (snd (login_submit (loginPage (js ''bob'') []))) = []
   \<and> list_ex (\<lambda>m. msg_class m = js ''error'')
        (messages (snd (login_submit (loginPage (js ''bob'') []))))
   \<and> \<not> list_ex (\<lambda>m. msg_class m = js ''error'')
        (messages (snd (login_submit (loginPage (js ''bob'') (js ''pw'')))))
   \<and> fst (auth_isLoggedIn (snd (login_submit (loginPage (js ''bob'') (js ''pw''))))) = Inr True"
proof -
  let ?b1 = "loginPage [] (js ''pw'')"
  let ?b2 = "loginPage (js ''bob'') []"
  let ?b3 = "loginPage (js ''bob'') (js ''pw'')"
  have f1: "inputs ?b1 (js ''username'') = Some (textField [])"
      "inputs ?b1 (js ''password'') = Some (passwordField (js ''pw''))"
    by (simp_all add: loginPage_def blankPage_def js_def)
  have f2: "inputs ?b2 (js ''username'') = Some (textField (js ''bob''))"
      "inputs ?b2 (js ''password'') = Some (passwordField [])"
    by (simp_all add: loginPage_def blankPage_def js_def)
  have f3: "inputs ?b3 (js ''username'') = Some (textField (js ''bob''))"
      "inputs ?b3 (js ''password'') = Some (passwordField (js ''pw''))"
    by (simp_all add: loginPage_def blankPage_def js_def)
  have v: "trim (el_value (textField [])) = []" "el_value (passwordField []) = []"
      "trim (el_value (textField (js ''bob''))) \<noteq> []" "el_value (passwordField (js ''pw'')) \<noteq> []"
    by (simp_all add: textField_def passwordField_def trim_def isWhiteSpace_def js_def)
  have st: "localStorage ?b1 = Some Map.empty" "hrefs ?b1 = []" "messages ?b1 = []"
      "localStorage ?b2 = Some Map.empty" "hrefs ?b2 = []" "localStorage ?b3 \<noteq> None"
    by (simp_all add: loginPage_def blankPage_def)
  from C6_login_rejects_only_emptiness [OF f1] v st
  have 1: "login_submit ?b1 =
       (Inr (), ?b1\<lparr>messages := [\<lparr>msg_text = js ''Please enter both username and password.'',
                         msg_class = js ''error'', msg_checkmark = False\<rparr>]\<rparr>)"
      "localStorage (snd (login_submit ?b1)) = Some Map.empty"
      "hrefs (snd (login_submit ?b1)) = []"
    by (simp_all add: loginPage_def blankPage_def)
  from C6_login_rejects_only_emptiness [OF f2] v st
  have 2: "localStorage (snd (login_submit ?b2)) = Some Map.empty"
      "hrefs (snd (login_submit ?b2)) = []"
      "list_ex (\<lambda>m. msg_class m = js ''error'') (messages (snd (login_submit ?b2)))"
    by simp_all
  from C6_login_rejects_only_emptiness [OF f3] v st
  have 3: "\<not> list_ex (\<lambda>m. msg_class m = js ''error'') (messages (snd (login_submit ?b3)))"
      "fst (auth_isLoggedIn (snd (login_submit ?b3))) = Inr True"
    by simp_all
  from f1 v 1 2 3 show ?thesis by simp
qed

text \<open>
  C10. The handler trims the username and not the password: a username of white space only
  is rejected like an empty one; the username that a successful login stores is the trimmed
  value of the field; and a password of white space only is not empty, so with a username
  that is non-empty after trimming the login goes through.
\<close>

theorem C10_login_trims_username_only:
  assumes "inputs b (js ''username'') = Some ue" and "inputs b (js ''password'') = Some pe"
    and "localStorage b = Some l"
  shows "(list_all isWhiteSpace (el_value ue) \<longrightarrow>
            login_submit b =
              (Inr (), b\<lparr>messages := [\<lparr>msg_text = js ''Please enter both username and password.'',
                                        msg_class = js ''error'', msg_checkmark = False\<rparr>],
                        checkmark := (if list_ex msg_checkmark (messages b) then None
                                      else checkmark b)\<rparr>))
       \<and> (trim (el_value ue) \<noteq> [] \<and> el_value pe \<noteq> [] \<longrightarrow>
            localStorage (snd (login_submit b)) =
              Some (l(storageKey \<mapsto> JSON_stringify \<lparr>username = trim (el_value ue)\<rparr>))
            \<and> (trim (el_value ue) \<noteq> el_value ue \<longrightarrow>
                 localStorage (snd (login_submit b)) \<noteq>
                   Some (l(storageKey \<mapsto> JSON_stringify \<lparr>username = el_value ue\<rparr>))))
       \<and> (trim (el_value ue) \<noteq> [] \<and> el_value pe \<noteq> [] \<and> list_all isWhiteSpace (el_value pe) \<longrightarrow>
            fst (login_submit b) = Inr ()
            \<and> fst (auth_isLoggedIn (snd (login_submit b))) = Inr True
            \<and> \<not> list_ex (\<lambda>m. msg_class m = js ''error'') (messages (snd (login_submit b)))
            \<and> length (hrefs (snd (login_submit b))) = Suc (length (hrefs b)))"
proof (intro conjI impI)
  assume "list_all isWhiteSpace (el_value ue)"
  then have "trim (el_value ue) = [] \<or> el_value pe = []" by (simp add: trim_empty_iff)
  from login_rejected [OF assms(1,2) this]
  show "login_submit b =
              (Inr (), b\<lparr>messages := [\<lparr>msg_text = js ''Please enter both username and password.'',
                                        msg_class = js ''error'', msg_checkmark = False\<rparr>],
                        checkmark := (if list_ex msg_checkmark (messages b) then None
                                      else checkmark b)\<rparr>)" .
next
  assume "trim (el_value ue) \<noteq> [] \<and> el_value pe \<noteq> []"
  with login_not_rejected_logs_in [OF assms]
  show stored: "localStorage (snd (login_submit b)) =
              Some (l(storageKey \<mapsto> JSON_stringify \<lparr>username = trim (el_value ue)\<rparr>))"
    by simp
  assume changed: "trim (el_value ue) \<noteq> el_value ue"
  show "localStorage (snd (login_submit b)) \<noteq>
          Some (l(storageKey \<mapsto> JSON_stringify \<lparr>username = el_value ue\<rparr>))"
  proof
    assume "localStorage (snd (login_submit b)) =
          Some (l(storageKey \<mapsto> JSON_stringify \<lparr>username = el_value ue\<rparr>))"
    with stored have "(l(storageKey \<mapsto> JSON_stringify \<lparr>username = trim (el_value ue)\<rparr>)) storageKey
        = (l(storageKey \<mapsto> JSON_stringify \<lparr>username = el_value ue\<rparr>)) storageKey"
      by simp
    then have "JSON_stringify \<lparr>username = trim (el_value ue)\<rparr>
        = JSON_stringify \<lparr>username = el_value ue\<rparr>"
      by simp
    then have "\<lparr>username = trim (el_value ue)\<rparr> = \<lparr>username = el_value ue\<rparr>"
      by (rule JSON_stringify_inj)
    with changed show False by simp
  qed
next
  assume ok: "trim (el_value ue) \<noteq> [] \<and> el_value pe \<noteq> [] \<and> list_all isWhiteSpace (el_value pe)"
  with login_not_rejected_logs_in [OF assms]
  show "fst (login_submit b) = Inr ()"
    and "fst (auth_isLoggedIn (snd (login_submit b))) = Inr True"
    and "length (hrefs (snd (login_submit b))) = Suc (length (hrefs b))"
    by simp_all
  from ok login_not_rejected_no_error [OF assms(1,2)]
  show "\<not> list_ex (\<lambda>m. msg_class m = js ''error'') (messages (snd (login_submit b)))"
    by simp
qed

theorem C10_witness:
  "inputs (loginPage (js ''   '') (js ''pw'')) (js ''username'') = Some (textField (js ''   ''))
   \<and> list_all isWhiteSpace (js ''   '')
   \<and> login_submit (loginPage (js ''   '') (js ''pw'')) =
       (Inr (), loginPage (js ''   '') (js ''pw'')
          \<lparr>messages := [\<lparr>msg_text = js ''Please enter both username and password.'',
                         msg_class = js ''error'', msg_checkmark = False\<rparr>]\<rparr>)
   \<and> trim (js '' bob '') = js ''bob''
   \<and> localStorage (snd (login_submit (loginPage (js '' bob '') (js ''   ''))))
       = Some [storageKey \<mapsto> JSON_stringify \<lparr>username = js ''bob''\<rparr>]
   \<and> JSON_stringify \<lparr>username = js ''bob''\<rparr> \<noteq> JSON_stringify \<lparr>username = js '' bob ''\<rparr>
   \<and> fst (login_submit (loginPage (js '' bob '') (js ''   ''))) = Inr ()
   \<and> fst (auth_isLoggedIn (snd (login_submit (loginPage (js '' bob '') (js ''   ''))))) = Inr True
   \<and> \<not> list_ex (\<lambda>m. msg_class m = js ''error'')
        (messages (snd (login_submit (loginPage (js '' bob '') (js ''   '')))))"
proof -
  let ?b1 = "loginPage (js ''   '') (js ''pw'')"
  let ?b2 = "loginPage (js '' bob '') (js ''   '')"
  have f1: "inputs ?b1 (js ''username'') = Some (textField (js ''   ''))"
      "inputs ?b1 (js ''password'') = Some (passwordField (js ''pw''))"
      "localStorage ?b1 = Some Map.empty"
    by (simp_all add: loginPage_def blankPage_def js_def)
  have f2: "inputs ?b2 (js ''username'') = Some (textField (js '' bob ''))"
      "inputs ?b2 (js ''password'') = Some (passwordField (js ''   ''))"
      "localStorage ?b2 = Some Map.empty"
    by (simp_all add: loginPage_def blankPage_def js_def)
  have ws: "list_all isWhiteSpace (js ''   '')"
    by (simp add: isWhiteSpace_def js_def)
  have t: "trim (js '' bob '') = js ''bob''"
    by (simp add: trim_def isWhiteSpace_def js_def)
  have v: "el_value (textField (js ''   '')) = js ''   ''"
      "el_value (textField (js '' bob '')) = js '' bob ''"
      "el_value (passwordField (js ''   '')) = js ''   ''"
      "js ''bob'' \<noteq> []" "js ''   '' \<noteq> []" "messages ?b1 = []" "checkmark ?b1 = None"
    by (simp_all add: textField_def passwordField_def js_def loginPage_def blankPage_def)
  have diff: "JSON_stringify \<lparr>username = js ''bob''\<rparr> \<noteq> JSON_stringify \<lparr>username = js '' bob ''\<rparr>"
    by (simp add: JSON_stringify_def js_def escapeUnit_def isLeadSurrogate_def
        isTrailSurrogate_def)
  from C10_login_trims_username_only [OF f1] ws v
  have 1: "login_submit ?b1 =
       (Inr (), ?b1\<lparr>messages := [\<lparr>msg_text = js ''Please enter both username and password.'',
                         msg_class = js ''error'', msg_checkmark = False\<rparr>]\<rparr>)"
    by (simp add: loginPage_def blankPage_def)
  from C10_login_trims_username_only [OF f2] ws t v
  have 2: "localStorage (snd (login_submit ?b2))
       = Some [storageKey \<mapsto> JSON_stringify \<lparr>username = js ''bob''\<rparr>]"
      "fst (login_submit ?b2) = Inr ()"
      "fst (auth_isLoggedIn (snd (login_submit ?b2))) = Inr True"
      "\<not> list_ex (\<lambda>m. msg_class m = js ''error'') (messages (snd (login_submit ?b2)))"
    by simp_all
  from f1 ws t diff 1 2 show ?thesis by simp
qed

section \<open>The signup form\<close>

lemma signup_result:
  assumes "inputs b (js ''fullname'') = Some ne" and "inputs b (js ''email'') = Some ee"
    and "inputs b (js ''password'') = Some pe" and "inputs b (js ''confirm-password'') = Some ce"
  shows "signup_submit b =
     (Inr (),
      if trim (el_value ne) = [] \<or> trim (el_value ee) = [] \<or> el_value pe = []
      then b\<lparr>messages := [alert (js ''All fields are required.'') (js ''error'')],
             checkmark := (if list_ex msg_checkmark (messages b) then None else checkmark b)\<rparr>
      else if length (el_value pe) < 6
      then b\<lparr>messages := [alert (js ''Password must be at least 6 characters.'') (js ''error'')],
             checkmark := (if list_ex msg_checkmark (messages b) then None else checkmark b)\<rparr>
      else if el_value pe \<noteq> el_value ce
      then b\<lparr>messages := [alert (js ''Passwords do not match.'') (js ''error'')],
             checkmark := (if list_ex msg_checkmark (messages b) then None else checkmark b)\<rparr>
      else b\<lparr>messages := [alert (js ''Account created! Redirecting to login...'') (js ''success'')],
             checkmark := (if list_ex msg_checkmark (messages b) then None else checkmark b),
             timers := timers b @ [(1000, js ''login.html'')]\<rparr>)"
  using assms
  by (simp add: signup_submit_def clearMessages_def input_value_def showMessage_def alert_def
      setTimeout_href_def return_js_def bind_js_def Let_def)

text \<open>
  C5. With its four fields on the page, the signup handler shows exactly one message, that of
  the first check that fails in the order: name, email (both trimmed) or password empty;
  password shorter than 6 code units; password different from the confirmation. A password
  of length 5 gets the length error, one of length 6 passes the length check, and a
  confirmation that differs is rejected when the other checks pass. Only a submission that
  passes all three schedules the navigation to the login page; nothing is stored.
\<close>

theorem C5_signup_validation_order:
  assumes "inputs b (js ''fullname'') = Some ne" and "inputs b (js ''email'') = Some ee"
    and "inputs b (js ''password'') = Some pe" and "inputs b (js ''confirm-password'') = Some ce"
  shows "fst (signup_submit b) = Inr ()
   \<and> messages (snd (signup_submit b)) =
       (if trim (el_value ne) = [] \<or> trim (el_value ee) = [] \<or> el_value pe = []
        then [alert (js ''All fields are required.'') (js ''error'')]
        else if length (el_value pe) < 6
        then [alert (js ''Password must be at least 6 characters.'') (js ''error'')]
        else if el_value pe \<noteq> el_value ce
        then [alert (js ''Passwords do not match.'') (js ''error'')]
        else [alert (js ''Account created! Redirecting to login...'') (js ''success'')])
   \<and> (trim (el_value ne) \<noteq> [] \<and> trim (el_value ee) \<noteq> [] \<and> length (el_value pe) = 5 \<longrightarrow>
        messages (snd (signup_submit b)) =
          [alert (js ''Password must be at least 6 characters.'') (js ''error'')]
        \<and> timers (snd (signup_submit b)) = timers b)
   \<and> (trim (el_value ne) \<noteq> [] \<and> trim (el_value ee) \<noteq> [] \<and> length (el_value pe) = 6 \<longrightarrow>
        messages (snd (signup_submit b)) =
          (if el_value pe = el_value ce
           then [alert (js ''Account created! Redirecting to login...'') (js ''success'')]
           else [alert (js ''Passwords do not match.'') (js ''error'')]))
   \<and> (trim (el_value ne) \<noteq> [] \<and> trim (el_value ee) \<noteq> [] \<and> 6 \<le> length (el_value pe)
        \<and> el_value pe \<noteq> el_value ce \<longrightarrow>
        messages (snd (signup_submit b)) = [alert (js ''Passwords do not match.'') (js ''error'')]
        \<and> timers (snd (signup_submit b)) = timers b)
   \<and> (timers (snd (signup_submit b)) =
        (if trim (el_value ne) \<noteq> [] \<and> trim (el_value ee) \<noteq> [] \<and> 6 \<le> length (el_value pe)
            \<and> el_value pe = el_value ce
         then timers b @ [(1000, js ''login.html'')] else timers b))
   \<and> localStorage (snd (signup_submit b)) = localStorage b
   \<and> hrefs (snd (signup_submit b)) = hrefs b"
proof -
  note out = signup_result [OF assms]
  show ?thesis
    by (simp add: out)
qed

theorem C5_witness:
  "inputs (signupPage (js ''Ann'') (js ''a@b.c'') (js ''12345'') (js ''12345'')) (js ''fullname'')
      = Some (textField (js ''Ann''))
   \<and> trim (js ''Ann'') = js ''Ann'' \<and> trim (js ''a@b.c'') = js ''a@b.c''
   \<and> length (js ''12345'') = 5 \<and> length (js ''123456'') = 6
   \<and> messages (snd (signup_submit (signupPage (js ''Ann'') (js ''a@b.c'') (js ''12345'') (js ''12345''))))
      = [alert (js ''Password must be at least 6 characters.'') (js ''error'')]
   \<and> messages (snd (signup_submit (signupPage (js ''Ann'') (js ''a@b.c'') (js ''123456'') (js ''123456''))))
      = [alert (js ''Account created! Redirecting to login...'') (js ''success'')]
   \<and> timers (snd (signup_submit (signupPage (js ''Ann'') (js ''a@b.c'') (js ''123456'') (js ''123456''))))
      = [(1000, js ''login.html'')]
   \<and> messages (snd (signup_submit (signupPage (js ''Ann'') (js ''a@b.c'') (js ''123456'') (js ''1234567''))))
      = [alert (js ''Passwords do not match.'') (js ''error'')]
   \<and> messages (snd (signup_submit (signupPage (js '' '') (js ''a@b.c'') (js ''123'') (js ''456''))))
      = [alert (js ''All fields are required.'') (js ''error'')]
   \<and> messages (snd (signup_submit (signupPage (js ''Ann'') (js ''a@b.c'') (js ''123'') (js ''456''))))
      = [alert (js ''Password must be at least 6 characters.'') (js ''error'')]"
proof -
  have f: "inputs (signupPage n e p c) (js ''fullname'') = Some (textField n)"
      "inputs (signupPage n e p c) (js ''email'') = Some (textField e)"
      "inputs (signupPage n e p c) (js ''password'') = Some (passwordField p)"
      "inputs (signupPage n e p c) (js ''confirm-password'') = Some (passwordField c)"
      "timers (signupPage n e p c) = []"
    for n e p c
    by (simp_all add: signupPage_def blankPage_def js_def)
  have v: "el_value (textField x) = x" "el_value (passwordField x) = x" for x
    by (simp_all add: textField_def passwordField_def)
  have t: "trim (js ''Ann'') = js ''Ann''" "trim (js ''a@b.c'') = js ''a@b.c''" "trim (js '' '') = []"
    by (simp_all add: trim_def isWhiteSpace_def js_def)
  have n: "js ''Ann'' \<noteq> []" "js ''a@b.c'' \<noteq> []" "js ''12345'' \<noteq> []" "js ''123456'' \<noteq> []"
      "js ''123'' \<noteq> []" "js ''123456'' \<noteq> js ''1234567''"
      "length (js ''12345'') = 5" "length (js ''123456'') = 6" "length (js ''123'') = 3"
    by (simp_all add: js_def)
  note c5 = C5_signup_validation_order [OF f(1-4)]
  have 1: "messages (snd (signup_submit (signupPage (js ''Ann'') (js ''a@b.c'') (js ''12345'') (js ''12345''))))
      = [alert (js ''Password must be at least 6 characters.'') (js ''error'')]"
    using c5 [of "js ''Ann''" "js ''a@b.c''" "js ''12345''" "js ''12345''"] by (simp add: v t n)
  have 2: "messages (snd (signup_submit (signupPage (js ''Ann'') (js ''a@b.c'') (js ''123456'') (js ''123456''))))
      = [alert (js ''Account created! Redirecting to login...'') (js ''success'')]"
     "timers (snd (signup_submit (signupPage (js ''Ann'') (js ''a@b.c'') (js ''123456'') (js ''123456''))))
      = [(1000, js ''login.html'')]"
    using c5 [of "js ''Ann''" "js ''a@b.c''" "js ''123456''" "js ''123456''"] by (simp_all add: v t n f)
  have 3: "messages (snd (signup_submit (signupPage (js ''Ann'') (js ''a@b.c'') (js ''123456'') (js ''1234567''))))
      = [alert (js ''Passwords do not match.'') (js ''error'')]"
    using c5 [of "js ''Ann''" "js ''a@b.c''" "js ''123456''" "js ''1234567''"] by (simp add: v t n)
  have 4: "messages (snd (signup_submit (signupPage (js '' '') (js ''a@b.c'') (js ''123'') (js ''456''))))
      = [alert (js ''All fields are required.'') (js ''error'')]"
    using c5 [of "js '' ''" "js ''a@b.c''" "js ''123''" "js ''456''"] by (simp add: v t n)
  have 5: "messages (snd (signup_submit (signupPage (js ''Ann'') (js ''a@b.c'') (js ''123'') (js ''456''))))
      = [alert (js ''Password must be at least 6 characters.'') (js ''error'')]"
    using c5 [of "js ''Ann''" "js ''a@b.c''" "js ''123''" "js ''456''"] by (simp add: v t n)
  from f(1) t n 1 2 3 4 5 show ?thesis by simp
qed

section \<open>The password toggles\<close>

lemma toggle_click_result:
  assumes "n < length (buttons b)" and "inputs b (inputId (buttons b ! n)) = Some el"
  shows "pwdToggle_click n b =
     (Inr (), b\<lparr>inputs := (inputs b)(inputId (buttons b ! n) \<mapsto>
                   el\<lparr>el_type := if el_type el = js ''password'' then js ''text''
                                   else js ''password''\<rparr>),
               buttons := (buttons b)[n := (buttons b ! n)\<lparr>btn_textContent :=
                   if el_type el = js ''password'' then js ''Hide'' else js ''Show''\<rparr>]\<rparr>)"
  using assms by (simp add: pwdToggle_click_def return_js_def Let_def)

lemma toggle_click_twice:
  assumes "n < length (buttons b)" and "inputs b (inputId (buttons b ! n)) = Some el"
    and "el_type el = js ''password''"
  shows "bind_js (pwdToggle_click n) (\<lambda>_. pwdToggle_click n) b =
     (Inr (), b\<lparr>inputs := (inputs b)(inputId (buttons b ! n) \<mapsto> el),
               buttons := (buttons b)[n := (buttons b ! n)\<lparr>btn_textContent := js ''Show''\<rparr>]\<rparr>)"
proof -
  have ne: "js ''text'' \<noteq> js ''password''" by (simp add: js_def)
  have el: "el\<lparr>el_type := js ''password''\<rparr> = el" using assms(3) by (cases el) simp
  have same: "inputId (btn\<lparr>btn_textContent := t\<rparr>) = inputId btn" for btn t
    by (simp add: inputId_def)
  show ?thesis
    using assms(1,2) ne
    by (simp add: bind_js_def pwdToggle_click_def return_js_def Let_def same assms(3) el)
qed

lemma toggle_click_absent:
  assumes "n < length (buttons b)" and "inputs b (inputId (buttons b ! n)) = None"
  shows "pwdToggle_click n b = (Inr (), b)"
  using assms by (simp add: pwdToggle_click_def return_js_def Let_def)

lemma toggle_clicks_commute:
  assumes "n < length (buttons b)" and "m < length (buttons b)" and "m \<noteq> n"
    and "inputId (buttons b ! m) \<noteq> inputId (buttons b ! n)"
  shows "bind_js (pwdToggle_click n) (\<lambda>_. pwdToggle_click m) b =
         bind_js (pwdToggle_click m) (\<lambda>_. pwdToggle_click n) b"
proof -
  have same: "inputId (btn\<lparr>btn_textContent := t\<rparr>) = inputId btn" for btn t
    by (simp add: inputId_def)
  show ?thesis
  proof (cases "inputs b (inputId (buttons b ! n))")
    case None
    note nn = None
    show ?thesis
    proof (cases "inputs b (inputId (buttons b ! m))")
      case None
      with nn assms show ?thesis
        by (simp add: bind_js_def pwdToggle_click_def return_js_def Let_def)
    next
      case (Some em)
      with nn assms show ?thesis
        by (simp add: bind_js_def pwdToggle_click_def return_js_def Let_def same)
    qed
  next
    case (Some en)
    note sn = Some
    show ?thesis
    proof (cases "inputs b (inputId (buttons b ! m))")
      case None
      with sn assms show ?thesis
        by (simp add: bind_js_def pwdToggle_click_def return_js_def Let_def same)
    next
      case (Some em)
      with sn assms show ?thesis
        by (simp add: bind_js_def pwdToggle_click_def return_js_def Let_def same
            fun_upd_twist [of "inputId (buttons b ! m)" "inputId (buttons b ! n)"]
            list_update_swap [of m n])
    qed
  qed
qed

text \<open>
  C9. For every toggle whose target field is on the page: a click on a masked field (type
  \<open>password\<close>) sets its type to \<open>text\<close> and the label to Hide; a second click sets the type
  back to \<open>password\<close> and the label to Show, so that two clicks on a masked field labelled
  Show give back the state before the first click. The type and label that a click produces
  depend on the field's type alone. A click changes no other button and no other field, and
  clicks on two toggles with different targets commute.
\<close>

theorem C9_password_toggle:
  assumes "n < length (buttons b)" and "inputs b (inputId (buttons b ! n)) = Some el"
  shows "(el_type el = js ''password'' \<longrightarrow>
            pwdToggle_click n b =
              (Inr (), b\<lparr>inputs := (inputs b)(inputId (buttons b ! n) \<mapsto> el\<lparr>el_type := js ''text''\<rparr>),
                        buttons := (buttons b)[n := (buttons b ! n)\<lparr>btn_textContent := js ''Hide''\<rparr>]\<rparr>)
            \<and> bind_js (pwdToggle_click n) (\<lambda>_. pwdToggle_click n) b =
              (Inr (), b\<lparr>inputs := (inputs b)(inputId (buttons b ! n) \<mapsto> el),
                        buttons := (buttons b)[n := (buttons b ! n)\<lparr>btn_textContent := js ''Show''\<rparr>]\<rparr>)
            \<and> (btn_textContent (buttons b ! n) = js ''Show'' \<longrightarrow>
                 bind_js (pwdToggle_click n) (\<lambda>_. pwdToggle_click n) b = (Inr (), b)))
       \<and> (\<forall>b' el'. n < length (buttons b') \<and> inputs b' (inputId (buttons b' ! n)) = Some el'
              \<and> el_type el' = el_type el \<longrightarrow>
            map_option el_type (inputs (snd (pwdToggle_click n b')) (inputId (buttons b' ! n)))
              = map_option el_type (inputs (snd (pwdToggle_click n b)) (inputId (buttons b ! n)))
            \<and> btn_textContent (buttons (snd (pwdToggle_click n b')) ! n)
              = btn_textContent (buttons (snd (pwdToggle_click n b)) ! n))
       \<and> length (buttons (snd (pwdToggle_click n b))) = length (buttons b)
       \<and> (\<forall>m. m \<noteq> n \<longrightarrow> buttons (snd (pwdToggle_click n b)) ! m = buttons b ! m)
       \<and> (\<forall>j. j \<noteq> inputId (buttons b ! n) \<longrightarrow> inputs (snd (pwdToggle_click n b)) j = inputs b j)
       \<and> (\<forall>m. m < length (buttons b) \<and> m \<noteq> n
              \<and> inputId (buttons b ! m) \<noteq> inputId (buttons b ! n) \<longrightarrow>
            bind_js (pwdToggle_click n) (\<lambda>_. pwdToggle_click m) b =
            bind_js (pwdToggle_click m) (\<lambda>_. pwdToggle_click n) b)"
proof (intro conjI impI allI)
  note out = toggle_click_result [OF assms]
  {
    assume masked: "el_type el = js ''password''"
    show "pwdToggle_click n b =
              (Inr (), b\<lparr>inputs := (inputs b)(inputId (buttons b ! n) \<mapsto> el\<lparr>el_type := js ''text''\<rparr>),
                        buttons := (buttons b)[n := (buttons b ! n)\<lparr>btn_textContent := js ''Hide''\<rparr>]\<rparr>)"
      using masked by (simp add: out)
    show twice: "bind_js (pwdToggle_click n) (\<lambda>_. pwdToggle_click n) b =
              (Inr (), b\<lparr>inputs := (inputs b)(inputId (buttons b ! n) \<mapsto> el),
                        buttons := (buttons b)[n := (buttons b ! n)\<lparr>btn_textContent := js ''Show''\<rparr>]\<rparr>)"
      using assms masked by (rule toggle_click_twice)
    assume label: "btn_textContent (buttons b ! n) = js ''Show''"
    have "(buttons b ! n)\<lparr>btn_textContent := js ''Show''\<rparr> = buttons b ! n"
      using label by (cases "buttons b ! n") simp
    then have "(buttons b)[n := (buttons b ! n)\<lparr>btn_textContent := js ''Show''\<rparr>] = buttons b"
      by simp
    moreover have "(inputs b)(inputId (buttons b ! n) \<mapsto> el) = inputs b"
      using assms(2) by (simp add: fun_upd_idem)
    ultimately show "bind_js (pwdToggle_click n) (\<lambda>_. pwdToggle_click n) b = (Inr (), b)"
      by (simp add: twice)
  }
  show "length (buttons (snd (pwdToggle_click n b))) = length (buttons b)"
    by (simp add: out)
  {
    fix m assume "m \<noteq> n"
    then show "buttons (snd (pwdToggle_click n b)) ! m = buttons b ! m"
      by (simp add: out)
  }
  {
    fix j assume "j \<noteq> inputId (buttons b ! n)"
    then show "inputs (snd (pwdToggle_click n b)) j = inputs b j"
      by (simp add: out)
  }
  {
    fix m assume "m < length (buttons b) \<and> m \<noteq> n
              \<and> inputId (buttons b ! m) \<noteq> inputId (buttons b ! n)"
    then show "bind_js (pwdToggle_click n) (\<lambda>_. pwdToggle_click m) b =
            bind_js (pwdToggle_click m) (\<lambda>_. pwdToggle_click n) b"
      using assms(1) by (simp add: toggle_clicks_commute)
  }
  {
    fix b' :: browser and el' :: input_el
    assume other: "n < length (buttons b') \<and> inputs b' (inputId (buttons b' ! n)) = Some el'
              \<and> el_type el' = el_type el"
    then have out': "pwdToggle_click n b' =
       (Inr (), b'\<lparr>inputs := (inputs b')(inputId (buttons b' ! n) \<mapsto>
                   el'\<lparr>el_type := if el_type el' = js ''password'' then js ''text''
                                   else js ''password''\<rparr>),
               buttons := (buttons b')[n := (buttons b' ! n)\<lparr>btn_textContent :=
                   if el_type el' = js ''password'' then js ''Hide'' else js ''Show''\<rparr>]\<rparr>)"
      by (simp add: toggle_click_result)
    show "map_option el_type (inputs (snd (pwdToggle_click n b')) (inputId (buttons b' ! n)))
              = map_option el_type (inputs (snd (pwdToggle_click n b)) (inputId (buttons b ! n)))"
      using other by (simp add: out out')
    show "btn_textContent (buttons (snd (pwdToggle_click n b')) ! n)
              = btn_textContent (buttons (snd (pwdToggle_click n b)) ! n)"
      using other assms(1) by (simp add: out out')
  }
qed

theorem C9_witness:
  "length (buttons togglePage) = 2
   \<and> inputId (buttons togglePage ! 0) = js ''password''
   \<and> inputs togglePage (js ''password'') = Some (passwordField (js ''secret''))
   \<and> el_type (passwordField (js ''secret'')) = js ''password''
   \<and> btn_textContent (buttons togglePage ! 0) = js ''Show''
   \<and> pwdToggle_click 0 togglePage =
       (Inr (), togglePage
          \<lparr>inputs := (inputs togglePage)(js ''password'' \<mapsto>
              (passwordField (js ''secret''))\<lparr>el_type := js ''text''\<rparr>),
           buttons := [\<lparr>btn_dataFor = Some (js ''password''), btn_textContent = js ''Hide''\<rparr>,
                       \<lparr>btn_dataFor = Some (js ''confirm-password''), btn_textContent = js ''Show''\<rparr>]\<rparr>)
   \<and> bind_js (pwdToggle_click 0) (\<lambda>_. pwdToggle_click 0) togglePage = (Inr (), togglePage)
   \<and> inputs (snd (pwdToggle_click 0 togglePage)) (js ''confirm-password'')
       = Some (passwordField (js ''secret''))
   \<and> buttons (snd (pwdToggle_click 0 togglePage)) ! 1 = buttons togglePage ! 1
   \<and> bind_js (pwdToggle_click 0) (\<lambda>_. pwdToggle_click 1) togglePage
       = bind_js (pwdToggle_click 1) (\<lambda>_. pwdToggle_click 0) togglePage
   \<and> btn_textContent (buttons (snd (pwdToggle_click 0
        (togglePage\<lparr>buttons :=
           [\<lparr>btn_dataFor = Some (js ''password''), btn_textContent = js ''Reveal''\<rparr>]\<rparr>))) ! 0)
       = btn_textContent (buttons (snd (pwdToggle_click 0 togglePage)) ! 0)"
proof -
  let ?other = "togglePage\<lparr>buttons :=
           [\<lparr>btn_dataFor = Some (js ''password''), btn_textContent = js ''Reveal''\<rparr>]\<rparr>"
  have len: "length (buttons togglePage) = 2" "0 < length (buttons togglePage)"
    by (simp_all add: togglePage_def blankPage_def)
  have b0: "buttons togglePage ! 0 = \<lparr>btn_dataFor = Some (js ''password''), btn_textContent = js ''Show''\<rparr>"
    and b1: "buttons togglePage ! Suc 0 = \<lparr>btn_dataFor = Some (js ''confirm-password''), btn_textContent = js ''Show''\<rparr>"
    by (simp_all add: togglePage_def blankPage_def)
  have i0: "inputId (buttons togglePage ! 0) = js ''password''"
    and i1: "inputId (buttons togglePage ! Suc 0) = js ''confirm-password''"
    by (simp_all add: b0 b1 inputId_def)
  have ne: "js ''confirm-password'' \<noteq> js ''password''" by (simp add: js_def)
  have f: "inputs togglePage (js ''password'') = Some (passwordField (js ''secret''))"
      "inputs togglePage (js ''confirm-password'') = Some (passwordField (js ''secret''))"
    by (simp_all add: togglePage_def blankPage_def js_def)
  have ty: "el_type (passwordField (js ''secret'')) = js ''password''"
    by (simp add: passwordField_def)
  have lab: "btn_textContent (buttons togglePage ! 0) = js ''Show''" by (simp add: b0)
  have f0: "inputs togglePage (inputId (buttons togglePage ! 0)) = Some (passwordField (js ''secret''))"
    by (simp add: i0 f)
  note c9 = C9_password_toggle [OF len(2) f0]
  from c9 ty have 1: "pwdToggle_click 0 togglePage =
       (Inr (), togglePage
          \<lparr>inputs := (inputs togglePage)(js ''password'' \<mapsto>
              (passwordField (js ''secret''))\<lparr>el_type := js ''text''\<rparr>),
           buttons := [\<lparr>btn_dataFor = Some (js ''password''), btn_textContent = js ''Hide''\<rparr>,
                       \<lparr>btn_dataFor = Some (js ''confirm-password''), btn_textContent = js ''Show''\<rparr>]\<rparr>)"
  proof -
    assume "el_type (passwordField (js ''secret'')) = js ''password''"
    with c9 have "pwdToggle_click 0 togglePage =
       (Inr (), togglePage
          \<lparr>inputs := (inputs togglePage)(inputId (buttons togglePage ! 0) \<mapsto>
              (passwordField (js ''secret''))\<lparr>el_type := js ''text''\<rparr>),
           buttons := (buttons togglePage)
              [0 := (buttons togglePage ! 0)\<lparr>btn_textContent := js ''Hide''\<rparr>]\<rparr>)"
      by blast
    moreover have "(buttons togglePage)
              [0 := (buttons togglePage ! 0)\<lparr>btn_textContent := js ''Hide''\<rparr>]
        = [\<lparr>btn_dataFor = Some (js ''password''), btn_textContent = js ''Hide''\<rparr>,
           \<lparr>btn_dataFor = Some (js ''confirm-password''), btn_textContent = js ''Show''\<rparr>]"
      by (simp add: togglePage_def blankPage_def)
    ultimately show ?thesis by (simp only: i0)
  qed
  from c9 ty lab have 2: "bind_js (pwdToggle_click 0) (\<lambda>_. pwdToggle_click 0) togglePage
      = (Inr (), togglePage)"
    by blast
  from c9 ne have 3: "inputs (snd (pwdToggle_click 0 togglePage)) (js ''confirm-password'')
       = Some (passwordField (js ''secret''))"
    by (simp add: i0 f)
  from c9 have 4: "buttons (snd (pwdToggle_click 0 togglePage)) ! 1 = buttons togglePage ! 1"
    by simp
  from c9 have "1 < length (buttons togglePage) \<and> (1::nat) \<noteq> 0
              \<and> inputId (buttons togglePage ! 1) \<noteq> inputId (buttons togglePage ! 0) \<longrightarrow>
            bind_js (pwdToggle_click 0) (\<lambda>_. pwdToggle_click 1) togglePage =
            bind_js (pwdToggle_click 1) (\<lambda>_. pwdToggle_click 0) togglePage"
    by blast
  with len ne have 5: "bind_js (pwdToggle_click 0) (\<lambda>_. pwdToggle_click 1) togglePage
       = bind_js (pwdToggle_click 1) (\<lambda>_. pwdToggle_click 0) togglePage"
    by (simp add: i0 i1)
  have o: "0 < length (buttons ?other)"
      "inputs ?other (inputId (buttons ?other ! 0)) = Some (passwordField (js ''secret''))"
    by (simp_all add: inputId_def) (simp add: togglePage_def blankPage_def js_def)
  from c9 have "0 < length (buttons ?other)
      \<and> inputs ?other (inputId (buttons ?other ! 0)) = Some (passwordField (js ''secret''))
      \<and> el_type (passwordField (js ''secret'')) = el_type (passwordField (js ''secret'')) \<longrightarrow>
      btn_textContent (buttons (snd (pwdToggle_click 0 ?other)) ! 0)
       = btn_textContent (buttons (snd (pwdToggle_click 0 togglePage)) ! 0)"
    by blast
  with o have 6: "btn_textContent (buttons (snd (pwdToggle_click 0 ?other)) ! 0)
       = btn_textContent (buttons (snd (pwdToggle_click 0 togglePage)) ! 0)"
    by blast
  from len(1) i0 f(1) ty lab 1 2 3 4 5 6 show ?thesis by simp
qed

section \<open>The quest form\<close>

text \<open>
  With a blank field the handler shows the one error message and leaves every control as it
  is; with the three fields filled it resets every control to its default value and shows
  the success message, with the checkmark inside it when the element is in the document.
  Neither path touches storage, navigations or timers.
\<close>

lemma quest_rejected:
  assumes "inputs b (js ''questTitle'') = Some te" and "inputs b (js ''questBudget'') = Some be"
    and "inputs b (js ''questDesc'') = Some de"
    and "trim (el_value te) = [] \<or> trim (el_value be) = [] \<or> trim (el_value de) = []"
  shows "quest_submit b =
     (Inr (), b\<lparr>messages := [alert (js ''Please complete all fields.'') (js ''error'')],
               checkmark := (if list_ex msg_checkmark (messages b) then None else checkmark b)\<rparr>)"
  using assms
  by (auto simp add: quest_submit_def clearMessages_def input_value_def showMessage_def
      alert_def return_js_def bind_js_def Let_def)

lemma quest_accepted:
  assumes "inputs b (js ''questTitle'') = Some te" and "inputs b (js ''questBudget'') = Some be"
    and "inputs b (js ''questDesc'') = Some de"
    and "trim (el_value te) \<noteq> []" and "trim (el_value be) \<noteq> []" and "trim (el_value de) \<noteq> []"
  shows "quest_submit b =
     (Inr (), b\<lparr>inputs := (\<lambda>i. map_option (\<lambda>el. el\<lparr>el_value := el_defaultValue el\<rparr>) (inputs b i)),
               messages := [\<lparr>msg_text = js ''Quest submitted successfully!'',
                             msg_class = js ''success'',
                             msg_checkmark = (\<not> list_ex msg_checkmark (messages b)
                                              \<and> checkmark b \<noteq> None)\<rparr>],
               checkmark := (if list_ex msg_checkmark (messages b) then None
                             else map_option (\<lambda>_. js ''inline-block'') (checkmark b))\<rparr>)"
proof (cases "list_ex msg_checkmark (messages b) \<or> checkmark b = None")
  case True
  with assms show ?thesis
    by (auto simp add: quest_submit_def clearMessages_def input_value_def showMessage_def alert_def
        form_reset_def getElementById_successCheckmark_def
        return_js_def bind_js_def Let_def)
next
  case False
  then obtain d where "checkmark b = Some d" "\<not> list_ex msg_checkmark (messages b)" by auto
  with assms show ?thesis
    by (simp add: quest_submit_def clearMessages_def input_value_def showMessage_def alert_def
        form_reset_def getElementById_successCheckmark_def set_checkmark_display_def
        prependCheckmark_def return_js_def bind_js_def Let_def)
qed

lemma quest_resubmission:
  assumes "inputs b (js ''questTitle'') = Some te" and "inputs b (js ''questBudget'') = Some be"
    and "inputs b (js ''questDesc'') = Some de"
    and "trim (el_value te) \<noteq> []" and "trim (el_value be) \<noteq> []" and "trim (el_value de) \<noteq> []"
    and "checkmark b = Some d" and "\<not> list_ex msg_checkmark (messages b)"
  shows "messages (snd (quest_submit b)) =
           [\<lparr>msg_text = js ''Quest submitted successfully!'', msg_class = js ''success'',
             msg_checkmark = True\<rparr>]
       \<and> messages (snd (quest_submit
            (typeInto (js ''questTitle'') (el_value te)
              (typeInto (js ''questBudget'') (el_value be)
                (typeInto (js ''questDesc'') (el_value de) (snd (quest_submit b))))))) =
           [\<lparr>msg_text = js ''Quest submitted successfully!'', msg_class = js ''success'',
             msg_checkmark = False\<rparr>]
       \<and> checkmark (snd (quest_submit
            (typeInto (js ''questTitle'') (el_value te)
              (typeInto (js ''questBudget'') (el_value be)
                (typeInto (js ''questDesc'') (el_value de) (snd (quest_submit b))))))) = None"
proof -
  let ?b1 = "snd (quest_submit b)"
  let ?b2 = "typeInto (js ''questTitle'') (el_value te)
              (typeInto (js ''questBudget'') (el_value be)
                (typeInto (js ''questDesc'') (el_value de) ?b1))"
  have ne: "js ''questTitle'' \<noteq> js ''questBudget''" "js ''questTitle'' \<noteq> js ''questDesc''"
      "js ''questBudget'' \<noteq> js ''questDesc''"
    by (simp_all add: js_def)
  note first = quest_accepted [OF assms(1-6)]
  have m1: "messages ?b1 = [\<lparr>msg_text = js ''Quest submitted successfully!'',
      msg_class = js ''success'', msg_checkmark = True\<rparr>]"
    using assms(7,8) by (simp add: first)
  have c1: "checkmark ?b1 = Some (js ''inline-block'')"
    using assms(7,8) by (simp add: first)
  have i1: "inputs ?b1 (js ''questTitle'') = Some (te\<lparr>el_value := el_defaultValue te\<rparr>)"
      "inputs ?b1 (js ''questBudget'') = Some (be\<lparr>el_value := el_defaultValue be\<rparr>)"
      "inputs ?b1 (js ''questDesc'') = Some (de\<lparr>el_value := el_defaultValue de\<rparr>)"
    using assms(1-3) by (simp_all add: first)
  have i2: "inputs ?b2 (js ''questTitle'') = Some (te\<lparr>el_value := el_value te\<rparr>)"
      "inputs ?b2 (js ''questBudget'') = Some (be\<lparr>el_value := el_value be\<rparr>)"
      "inputs ?b2 (js ''questDesc'') = Some (de\<lparr>el_value := el_value de\<rparr>)"
    using ne by (simp_all add: typeInto_def i1)
  have m2: "messages ?b2 = messages ?b1" "checkmark ?b2 = checkmark ?b1"
    using ne by (simp_all add: typeInto_def i1)
  have v: "trim (el_value (te\<lparr>el_value := el_value te\<rparr>)) \<noteq> []"
      "trim (el_value (be\<lparr>el_value := el_value be\<rparr>)) \<noteq> []"
      "trim (el_value (de\<lparr>el_value := el_value de\<rparr>)) \<noteq> []"
    using assms(4-6) by simp_all
  note second = quest_accepted [OF i2 v]
  have "messages (snd (quest_submit ?b2)) = [\<lparr>msg_text = js ''Quest submitted successfully!'',
      msg_class = js ''success'', msg_checkmark = False\<rparr>]"
    by (simp add: second m2 m1)
  moreover have "checkmark (snd (quest_submit ?b2)) = None"
    by (simp add: second m2 m1)
  ultimately show ?thesis using m1 by simp
qed

text \<open>
  C8 at a failing input: a page with the checkmark element, the same three values submitted
  twice. The first success message contains the checkmark. \<^verbatim>\<open>clearMessages\<close> of the second
  submission removes that message together with the checkmark inside it, so the second
  success message has no checkmark and the element is gone from the document: the second
  submission does not behave as the first did.
\<close>

theorem C8_second_submission_loses_checkmark:
  "messages (snd (quest_submit
      (questPage (js ''Mow the lawn'') (js ''20'') (js ''Front yard'') (Some (js ''none''))))) =
     [\<lparr>msg_text = js ''Quest submitted successfully!'', msg_class = js ''success'',
       msg_checkmark = True\<rparr>]
   \<and> messages (snd (quest_submit
        (typeInto (js ''questTitle'') (js ''Mow the lawn'')
          (typeInto (js ''questBudget'') (js ''20'')
            (typeInto (js ''questDesc'') (js ''Front yard'')
              (snd (quest_submit
                (questPage (js ''Mow the lawn'') (js ''20'') (js ''Front yard'')
                   (Some (js ''none'')))))))))) =
     [\<lparr>msg_text = js ''Quest submitted successfully!'', msg_class = js ''success'',
       msg_checkmark = False\<rparr>]
   \<and> checkmark (snd (quest_submit
        (typeInto (js ''questTitle'') (js ''Mow the lawn'')
          (typeInto (js ''questBudget'') (js ''20'')
            (typeInto (js ''questDesc'') (js ''Front yard'')
              (snd (quest_submit
                (questPage (js ''Mow the lawn'') (js ''20'') (js ''Front yard'')
                   (Some (js ''none'')))))))))) = None"
proof -
  let ?P = "questPage (js ''Mow the lawn'') (js ''20'') (js ''Front yard'') (Some (js ''none''))"
  have f: "inputs ?P (js ''questTitle'') = Some (textField (js ''Mow the lawn''))"
      "inputs ?P (js ''questBudget'') = Some (textField (js ''20''))"
      "inputs ?P (js ''questDesc'') = Some (textField (js ''Front yard''))"
    by (simp_all add: questPage_def blankPage_def js_def)
  have v: "trim (el_value (textField (js ''Mow the lawn''))) \<noteq> []"
      "trim (el_value (textField (js ''20''))) \<noteq> []"
      "trim (el_value (textField (js ''Front yard''))) \<noteq> []"
    by (simp_all add: textField_def trim_def isWhiteSpace_def js_def)
  have c: "checkmark ?P = Some (js ''none'')" "\<not> list_ex msg_checkmark (messages ?P)"
    by (simp_all add: questPage_def blankPage_def)
  have e: "el_value (textField x) = x" for x by (simp add: textField_def)
  from quest_resubmission [OF f v c] show ?thesis by (simp only: e)
qed

end
